theory Spec2Isabelle
  imports Complex_Main "HOL-Library.Multiset" "HOL-Library.Sublist"
begin

section \<open>JavaScript values used by the playlist controller\<close>

text \<open>
  A string is the sequence of its UTF-8 bytes. An optional string is \<open>None\<close> where
  the JavaScript value is \<open>undefined\<close> or \<open>null\<close>.

  \<open>String.prototype.toLowerCase\<close> applies the Unicode case mapping of the engine, which
  is not reproduced here: the functions below that call it take it as the argument
  \<open>lc\<close>, and the handlers take it from their environment, so that what is proved of
  them holds whatever that mapping does to a string. \<open>asciiLowerCase\<close> is what the
  mapping does to a string of ASCII characters: it replaces the letters \<open>A\<close> to
  \<open>Z\<close> and leaves every other ASCII character alone. The concrete scenarios, whose
  strings are all ASCII, run with it.
\<close>

definition upperLetters :: string where
  "upperLetters = ''ABCDEFGHIJKLMNOPQRSTUVWXYZ''"

definition lowerLetters :: string where
  "lowerLetters = ''abcdefghijklmnopqrstuvwxyz''"

definition lowerChar :: "char \<Rightarrow> char" where
  "lowerChar c = (case map_of (zip upperLetters lowerLetters) c of Some d \<Rightarrow> d | None \<Rightarrow> c)"

definition asciiLowerCase :: "string \<Rightarrow> string" where
  "asciiLowerCase s = map lowerChar s"

text \<open>Truthiness of an optional string: \<open>undefined\<close>, \<open>null\<close> and \<open>""\<close> are falsy.\<close>

fun truthy :: "string option \<Rightarrow> bool" where
  "truthy None = False"
| "truthy (Some s) = (s \<noteq> [])"

text \<open>A template literal or a property key renders \<open>undefined\<close> as the word itself.\<close>

fun toKey :: "string option \<Rightarrow> string" where
  "toKey None = ''undefined''"
| "toKey (Some s) = s"

text \<open>
  A property value read from a provider object. Provider responses are JSON, so a
  number is a finite double, written in the response as a decimal numeral. It is
  modelled by the rational number that the shortest decimal numeral of the double
  denotes (the double nearest to \<open>0.4\<close> by \<open>4/10\<close>); the bounds of the mood table
  are read the same way. Distinct doubles have distinct shortest numerals and these
  are ordered as the doubles are, so \<open>>=\<close> and \<open><=\<close> on doubles are the order of
  the reals on the numbers that model them.
\<close>

datatype jsval = JNumber real | JString string | JBool bool | JNull

section \<open>Provider data\<close>

record image =
  img_url :: "string option"

record album =
  alb_images :: "image list option"

record artist =
  art_id :: "string option"
  art_name :: "string option"

record raw_track =
  rt_id :: "string option"
  rt_name :: "string option"
  rt_artists :: "artist list option"
  rt_uri :: "string option"
  rt_album :: "album option"
  rt_preview_url :: "string option"

text \<open>An audio-features object: its properties by name (\<open>id\<close>, \<open>energy\<close>, ...).\<close>

type_synonym features = "string \<rightharpoonup> jsval"

section \<open>Genre normalisation (generatePlaylist, lines 112-124)\<close>

definition genreMap :: "(string \<times> string) list" where
  "genreMap =
    [(''rnb'', ''r-n-b''), (''hiphop'', ''hip-hop''), (''edm'', ''edm''), (''pop'', ''pop''),
     (''soul'', ''soul''), (''rock'', ''rock''), (''jazz'', ''jazz''),
     (''classical'', ''classical''), (''afrobeat'', ''afrobeat'')]"

text \<open>
  \<open>genreMap\<close> is an object literal, so \<open>genreMap[k]\<close> finds the members of
  \<open>Object.prototype\<close> where \<open>k\<close> is not one of the literal's own keys.
\<close>

definition objectPrototypeKeys :: "string list" where
  "objectPrototypeKeys =
    [''constructor'', ''__proto__'', ''hasOwnProperty'', ''isPrototypeOf'',
     ''propertyIsEnumerable'', ''toLocaleString'', ''toString'', ''valueOf'',
     ''__defineGetter__'', ''__defineSetter__'', ''__lookupGetter__'', ''__lookupSetter__'']"

text \<open>A seed genre: a string, or the inherited member (a function or object) a lookup found.\<close>

datatype genre = Genre string | PrototypeMember string

definition genreLookup :: "string \<Rightarrow> genre option" where
  "genreLookup k =
     (case map_of genreMap k of
        Some c \<Rightarrow> Some (Genre c)
      | None \<Rightarrow> if k \<in> set objectPrototypeKeys then Some (PrototypeMember k) else None)"

text \<open>\<open>genreMap[g.toLowerCase()] || g.toLowerCase()\<close>\<close>

definition normalizeGenre :: "(string \<Rightarrow> string) \<Rightarrow> string \<Rightarrow> genre" where
  "normalizeGenre lc g =
     (case genreLookup (lc g) of
        Some (Genre c) \<Rightarrow> if c \<noteq> [] then Genre c else Genre (lc g)
      | Some (PrototypeMember m) \<Rightarrow> PrototypeMember m
      | None \<Rightarrow> Genre (lc g))"

definition seedGenres :: "(string \<Rightarrow> string) \<Rightarrow> string list \<Rightarrow> genre list" where
  "seedGenres lc genres = take 2 (map (normalizeGenre lc) genres)"

text \<open>
  The normalisation in the specification's words: a known tag becomes its code, any
  other tag is passed through lowercased.
\<close>

definition specNormalizeGenre :: "(string \<Rightarrow> string) \<Rightarrow> string \<Rightarrow> string" where
  "specNormalizeGenre lc g =
     (case map_of genreMap (lc g) of Some c \<Rightarrow> c | None \<Rightarrow> lc g)"

section \<open>Mood constraints (lines 126-134)\<close>

type_synonym constraints = "(string \<times> real \<times> real) list"

definition moodMap :: "(string \<times> constraints) list" where
  "moodMap =
    [(''chill'', [(''energy'', 0, 1/2), (''danceability'', 4/10, 6/10), (''valence'', 4/10, 6/10)]),
     (''sad'', [(''energy'', 0, 3/10), (''valence'', 0, 4/10)]),
     (''party'', [(''energy'', 7/10, 1), (''danceability'', 7/10, 1), (''valence'', 6/10, 1)]),
     (''focus'', [(''energy'', 3/10, 6/10), (''instrumentalness'', 1/2, 1)]),
     (''hype'', [(''energy'', 8/10, 1), (''valence'', 7/10, 1)])]"

text \<open>
  \<open>moodMap[mood.toLowerCase()] || {}\<close>. An inherited member found for a mood such as
  \<open>constructor\<close> has no enumerable own keys, so it constrains nothing, like \<open>{}\<close>.
\<close>

definition target :: "(string \<Rightarrow> string) \<Rightarrow> string \<Rightarrow> constraints" where
  "target lc mood = (case map_of moodMap (lc mood) of Some c \<Rightarrow> c | None \<Rightarrow> [])"

section \<open>Deduplication (lines 188-192)\<close>

text \<open>
  \<open>byId\<close> is a \<open>Map\<close>, which keeps its entries in insertion order: an association
  list that is only ever extended at the end. A candidate may be \<open>null\<close>.
\<close>

definition byIdStep :: "(string \<times> raw_track) list \<Rightarrow> raw_track option \<Rightarrow> (string \<times> raw_track) list" where
  "byIdStep byId c =
     (case c of
        None \<Rightarrow> byId
      | Some t \<Rightarrow>
          if truthy (rt_id t) \<and> toKey (rt_id t) \<notin> set (map fst byId)
          then byId @ [(toKey (rt_id t), t)] else byId)"

definition dedupe :: "raw_track option list \<Rightarrow> raw_track list" where
  "dedupe candidateTracks = map snd (foldl byIdStep [] candidateTracks)"

text \<open>The id a candidate is filed under, when it has one.\<close>

definition candidateId :: "raw_track option \<Rightarrow> string option" where
  "candidateId c =
     (case c of None \<Rightarrow> None
      | Some t \<Rightarrow> if truthy (rt_id t) then rt_id t else None)"

text \<open>Position \<open>i\<close> holds the first candidate with its id.\<close>

definition firstSeen :: "raw_track option list \<Rightarrow> nat \<Rightarrow> bool" where
  "firstSeen cs i =
     (candidateId (cs ! i) \<noteq> None \<and> candidateId (cs ! i) \<notin> set (map candidateId (take i cs)))"

section \<open>Attribute filter (lines 196-222)\<close>

definition poolIds :: "raw_track list \<Rightarrow> string option list" where
  "poolIds candidateTracks = take 100 (map rt_id candidateTracks)"

text \<open>
  \<open>featuresMap\<close> is keyed by provider track ids (22 base-62 characters), none of
  which names a member of \<open>Object.prototype\<close>; it is modelled as a finite map.
\<close>

definition featuresId :: "features \<Rightarrow> string option" where
  "featuresId f = (case f ''id'' of Some (JString s) \<Rightarrow> Some s | _ \<Rightarrow> None)"

definition featuresStep :: "(string \<rightharpoonup> features) \<Rightarrow> features option \<Rightarrow> (string \<rightharpoonup> features)" where
  "featuresStep m fo =
     (case fo of
        None \<Rightarrow> m
      | Some f \<Rightarrow> if truthy (featuresId f) then m(toKey (featuresId f) \<mapsto> f) else m)"

definition buildFeaturesMap :: "features option list \<Rightarrow> (string \<rightharpoonup> features)" where
  "buildFeaturesMap audio_features = foldl featuresStep Map.empty audio_features"

text \<open>\<open>typeof f[attr] === "number" && f[attr] >= min && f[attr] <= max\<close>\<close>

definition inRange :: "features \<Rightarrow> string \<times> real \<times> real \<Rightarrow> bool" where
  "inRange f c =
     (case c of (attr, mn, mx) \<Rightarrow>
        (case f attr of Some (JNumber v) \<Rightarrow> mn \<le> v \<and> v \<le> mx | _ \<Rightarrow> False))"

text \<open>
  The filter's callback. \<open>target\<close> is an object literal, so each of its keys occurs
  once and \<open>target[attr]\<close> is the range listed with \<open>attr\<close>.
\<close>

definition passesFilter :: "constraints \<Rightarrow> (string \<rightharpoonup> features) \<Rightarrow> raw_track \<Rightarrow> bool" where
  "passesFilter tgt featuresMap t =
     (case featuresMap (toKey (rt_id t)) of
        None \<Rightarrow> True
      | Some f \<Rightarrow> if tgt = [] then True else list_all (inRange f) tgt)"

definition filtered :: "constraints \<Rightarrow> (string \<rightharpoonup> features) \<Rightarrow> raw_track list \<Rightarrow> raw_track list" where
  "filtered tgt featuresMap candidateTracks = filter (passesFilter tgt featuresMap) candidateTracks"

text \<open>\<open>const pool = filtered.length ? filtered : candidateTracks\<close>\<close>

definition pool :: "constraints \<Rightarrow> (string \<rightharpoonup> features) \<Rightarrow> raw_track list \<Rightarrow> raw_track list" where
  "pool tgt featuresMap candidateTracks =
     (if filtered tgt featuresMap candidateTracks \<noteq> [] then filtered tgt featuresMap candidateTracks
      else candidateTracks)"

text \<open>
  The filter in the specification's words: with no constraint every track passes;
  otherwise a track passes exactly when its fetched attribute values lie in every
  range, and a track without fetched attributes does not.
\<close>

definition specPassesFilter :: "constraints \<Rightarrow> (string \<rightharpoonup> features) \<Rightarrow> raw_track \<Rightarrow> bool" where
  "specPassesFilter tgt featuresMap t =
     (if tgt = [] then True
      else (case featuresMap (toKey (rt_id t)) of
              None \<Rightarrow> False
            | Some f \<Rightarrow> list_all (inRange f) tgt))"

section \<open>Drafts, users and published playlists (models/User.ts, models/Playlist.ts)\<close>

text \<open>The public shape of a track, as stored in a draft.\<close>

record track =
  tk_id :: "string option"
  tk_name :: "string option"
  tk_artist :: string
  tk_uri :: "string option"
  tk_image :: "string option"
  tk_preview :: "string option"

record draft =
  d_id :: string
  d_mood :: string
  d_genres :: "genre list"
  d_count :: int
  d_tracks :: "track list"
  d_status :: string
  d_createdAt :: nat

text \<open>
  A user document: the application's own session tokens (\<open>accessToken\<close>,
  \<open>refreshToken\<close>) and, under \<open>spotify\<close>, the provider's token pair and the drafts.
\<close>

record user =
  u_email :: string
  u_accessToken :: "string option"
  u_refreshToken :: "string option"
  u_spotify_accessToken :: "string option"
  u_spotify_refreshToken :: "string option"
  u_spotify_playlists :: "draft list"

record playlist_doc =
  pl_user :: "string option"
  pl_spotifyPlaylistId :: "string option"
  pl_name :: "string option"
  pl_mood :: string
  pl_genres :: "genre list"
  pl_tracks :: "track list"
  pl_createdAt :: nat

section \<open>The outside world: HTTP, the database driver, the clock, the random sort\<close>

datatype http_method = GET | POST

datatype authorization = Bearer string | Basic string string

datatype payload =
    NoData
  | FormData "(string \<times> string) list"
  | NewPlaylistData string string bool
  | UrisData "string option list"

record request =
  rq_method :: http_method
  rq_url :: string
  rq_data :: payload
  rq_authorization :: "authorization option"
  rq_contentType :: "string option"
  rq_params :: "(string \<times> string) list"

text \<open>\<open>data.tracks\<close> is an array for an artist's top tracks and a page object for a search.\<close>

datatype tracks_field =
    TracksUndefined
  | TracksArray "raw_track option list"
  | TracksPage "raw_track option list option"

text \<open>The \<open>data\<close> of a response: the properties the controllers read.\<close>

record response =
  rs_access_token :: "string option"
  rs_id :: "string option"
  rs_name :: "string option"
  rs_items :: "raw_track option list option"
  rs_tracks :: tracks_field
  rs_audio_features :: "features option list option"

text \<open>
  A thrown value: an axios error with the status of its response (if it has one), a
  plain \<open>Error\<close>, or an error of the database driver.
\<close>

datatype error = AxiosError "nat option" string | PlainError string | DbError string

fun responseStatus :: "error \<Rightarrow> nat option" where
  "responseStatus (AxiosError s m) = s"
| "responseStatus (PlainError m) = None"
| "responseStatus (DbError m) = None"

datatype db_op =
    FindById "string option"
  | FindByIdAndUpdate string string
  | SaveUser string
  | SavePlaylist playlist_doc

text \<open>
  What the code cannot decide is asked of the environment, which answers from a state
  \<open>'w\<close> of its own: the answer to an HTTP request, whether a database operation
  goes through (\<open>None\<close>) or fails (the message of the error), the time, and the order
  \<open>Array.prototype.sort\<close> leaves an array in under the random comparator. The
  engine's \<open>String.prototype.toLowerCase\<close> is a field of the environment too.
\<close>

record 'w env =
  axios :: "request \<Rightarrow> 'w \<Rightarrow> (error + response) \<times> 'w"
  db :: "db_op \<Rightarrow> 'w \<Rightarrow> (string option) \<times> 'w"
  dateNow :: "'w \<Rightarrow> nat \<times> 'w"
  sortRandom :: "raw_track list \<Rightarrow> 'w \<Rightarrow> raw_track list \<times> 'w"
  toLowerCase :: "string \<Rightarrow> string"
  SPOTIFY_CLIENT_ID :: "string option"
  SPOTIFY_CLIENT_SECRET :: "string option"

text \<open>The outbound calls, in order, each tagged with the call site that made it.\<close>

datatype event =
    AppTokenExchange request
  | FirstAttempt request
  | RefreshExchange request
  | PersistToken string string
  | Retry request

record 'w sys =
  world :: 'w
  users :: "string \<rightharpoonup> user"
  playlists :: "playlist_doc list"
  events :: "event list"

definition httpCall :: "'w env \<Rightarrow> (request \<Rightarrow> event) \<Rightarrow> request \<Rightarrow> 'w sys \<Rightarrow> (error + response) \<times> 'w sys" where
  "httpCall env tag rq st =
     (case axios env rq (world st) of
        (r, w) \<Rightarrow> (r, st\<lparr>world := w, events := events st @ [tag rq]\<rparr>))"

text \<open>\<open>User.findById\<close>: the document, \<open>null\<close>, or a driver error.\<close>

definition findById :: "'w env \<Rightarrow> string option \<Rightarrow> 'w sys \<Rightarrow> (error + user option) \<times> 'w sys" where
  "findById env userId st =
     (case db env (FindById userId) (world st) of
        (Some msg, w) \<Rightarrow> (Inl (DbError msg), st\<lparr>world := w\<rparr>)
      | (None, w) \<Rightarrow>
          (Inr (case userId of None \<Rightarrow> None | Some uid \<Rightarrow> users st uid), st\<lparr>world := w\<rparr>))"

text \<open>
  \<open>User.findByIdAndUpdate(userId, {"spotify.accessToken": t})\<close>: sets that one
  path of the stored document; no document with the id, no change.
\<close>

definition setSpotifyAccessToken :: "(string \<rightharpoonup> user) \<Rightarrow> string \<Rightarrow> string \<Rightarrow> (string \<rightharpoonup> user)" where
  "setSpotifyAccessToken us uid newAccessToken =
     (case us uid of
        None \<Rightarrow> us
      | Some u \<Rightarrow> us(uid \<mapsto> u\<lparr>u_spotify_accessToken := Some newAccessToken\<rparr>))"

definition findByIdAndUpdate :: "'w env \<Rightarrow> string \<Rightarrow> string \<Rightarrow> 'w sys \<Rightarrow> (error + unit) \<times> 'w sys" where
  "findByIdAndUpdate env uid newAccessToken st =
     (case db env (FindByIdAndUpdate uid newAccessToken) (world st) of
        (Some msg, w) \<Rightarrow> (Inl (DbError msg), st\<lparr>world := w\<rparr>)
      | (None, w) \<Rightarrow>
          (Inr (),
           st\<lparr>world := w,
              users := setSpotifyAccessToken (users st) uid newAccessToken,
              events := events st @ [PersistToken uid newAccessToken]\<rparr>))"

text \<open>
  \<open>user.save()\<close> writes the paths the handler modified: \<open>change\<close> is that
  modification, applied to the stored document.
\<close>

definition saveUser :: "'w env \<Rightarrow> string \<Rightarrow> (user \<Rightarrow> user) \<Rightarrow> 'w sys \<Rightarrow> (error + unit) \<times> 'w sys" where
  "saveUser env uid change st =
     (case db env (SaveUser uid) (world st) of
        (Some msg, w) \<Rightarrow> (Inl (DbError msg), st\<lparr>world := w\<rparr>)
      | (None, w) \<Rightarrow>
          (case users st uid of
             None \<Rightarrow> (Inl (DbError ''No document found''), st\<lparr>world := w\<rparr>)
           | Some u \<Rightarrow> (Inr (), st\<lparr>world := w, users := (users st)(uid \<mapsto> change u)\<rparr>)))"


section \<open>spotifyRequest (lines 30-74)\<close>

record opts =
  o_accessToken :: "string option"
  o_appToken :: "string option"
  o_data :: payload
  o_params :: "(string \<times> string) list"
  o_refreshToken :: "string option"
  o_userId :: "string option"

text \<open>\<open>opts.accessToken || opts.appToken\<close>\<close>

definition requestToken :: "opts \<Rightarrow> string option" where
  "requestToken o' = (if truthy (o_accessToken o') then o_accessToken o' else o_appToken o')"

definition requestHeaders :: "string option \<Rightarrow> authorization option" where
  "requestHeaders token = (if truthy token then Some (Bearer (toKey token)) else None)"

text \<open>
  The request of \<open>axios.get(url, {headers, params})\<close> and of
  \<open>axios.post(url, opts.data, {headers, params})\<close>.
\<close>

definition apiRequest :: "http_method \<Rightarrow> string \<Rightarrow> opts \<Rightarrow> authorization option \<Rightarrow> request" where
  "apiRequest m url o' headers =
     \<lparr>rq_method = m, rq_url = url,
      rq_data = (case m of GET \<Rightarrow> NoData | POST \<Rightarrow> o_data o'),
      rq_authorization = headers, rq_contentType = None, rq_params = o_params o'\<rparr>"

definition refreshRequest :: "'w env \<Rightarrow> string \<Rightarrow> request" where
  "refreshRequest env refreshToken =
     \<lparr>rq_method = POST, rq_url = ''https://accounts.spotify.com/api/token'',
      rq_data = FormData [(''grant_type'', ''refresh_token''), (''refresh_token'', refreshToken),
                          (''client_id'', toKey (SPOTIFY_CLIENT_ID env)),
                          (''client_secret'', toKey (SPOTIFY_CLIENT_SECRET env))],
      rq_authorization = None,
      rq_contentType = Some ''application/x-www-form-urlencoded'', rq_params = []\<rparr>"

text \<open>
  Lines 43-69, the handler of a 401 when a refresh token and a user id are at hand: the
  refresh exchange, the new token stored, the retry. Whatever is thrown in there is
  logged and thrown on.
\<close>

definition refreshAndRetry :: "'w env \<Rightarrow> http_method \<Rightarrow> string \<Rightarrow> opts \<Rightarrow> 'w sys \<Rightarrow> (error + response) \<times> 'w sys" where
  "refreshAndRetry env m url o' st =
     (case httpCall env RefreshExchange (refreshRequest env (toKey (o_refreshToken o'))) st of
        (Inl refreshErr, st1) \<Rightarrow> (Inl refreshErr, st1)
      | (Inr refreshResp, st1) \<Rightarrow>
          if \<not> truthy (rs_access_token refreshResp)
          then (Inl (PlainError ''No new access token returned.''), st1)
          else (case findByIdAndUpdate env (toKey (o_userId o')) (toKey (rs_access_token refreshResp)) st1 of
                  (Inl dbErr, st2) \<Rightarrow> (Inl dbErr, st2)
                | (Inr u, st2) \<Rightarrow>
                    httpCall env Retry
                      (apiRequest m url o' (Some (Bearer (toKey (rs_access_token refreshResp))))) st2))"

definition spotifyRequest :: "'w env \<Rightarrow> http_method \<Rightarrow> string \<Rightarrow> opts \<Rightarrow> 'w sys \<Rightarrow> (error + response) \<times> 'w sys" where
  "spotifyRequest env m url o' st =
     (case httpCall env FirstAttempt (apiRequest m url o' (requestHeaders (requestToken o'))) st of
        (Inr resp, st1) \<Rightarrow> (Inr resp, st1)
      | (Inl err, st1) \<Rightarrow>
          if responseStatus err = Some 401 \<and> truthy (o_refreshToken o') \<and> truthy (o_userId o')
          then refreshAndRetry env m url o' st1
          else (Inl err, st1))"

text \<open>The calls a run added to the log, and the call sites they came from.\<close>

definition newEvents :: "'w sys \<Rightarrow> 'w sys \<Rightarrow> event list" where
  "newEvents st st' = drop (length (events st)) (events st')"

fun isFirstAttempt :: "event \<Rightarrow> bool" where
  "isFirstAttempt (FirstAttempt rq) = True"
| "isFirstAttempt e = False"

fun isRefreshExchange :: "event \<Rightarrow> bool" where
  "isRefreshExchange (RefreshExchange rq) = True"
| "isRefreshExchange e = False"

fun isRetry :: "event \<Rightarrow> bool" where
  "isRetry (Retry rq) = True"
| "isRetry e = False"

section \<open>Responses of the handlers\<close>

datatype body =
    ErrorBody string
  | MessageBody string
  | DraftBody string draft
  | PlaylistBody string playlist_doc

record http_response =
  rp_status :: nat
  rp_body :: body
  rp_clearCookie :: bool

definition respond :: "nat \<Rightarrow> body \<Rightarrow> http_response" where
  "respond code b = \<lparr>rp_status = code, rp_body = b, rp_clearCookie = False\<rparr>"

text \<open>\<open>Array.prototype.findIndex\<close>, with \<open>None\<close> for \<open>-1\<close>.\<close>

fun findIndex :: "('a \<Rightarrow> bool) \<Rightarrow> 'a list \<Rightarrow> nat option" where
  "findIndex P [] = None"
| "findIndex P (x # xs) = (if P x then Some 0 else map_option Suc (findIndex P xs))"

section \<open>logout (controllers/auth.ts, lines 186-218)\<close>

definition logout :: "'w env \<Rightarrow> string option \<Rightarrow> 'w sys \<Rightarrow> http_response \<times> 'w sys" where
  "logout env userId st =
     (if \<not> truthy userId then (respond 400 (ErrorBody ''No active session found''), st)
      else (case findById env userId st of
              (Inl err, st1) \<Rightarrow> (respond 500 (ErrorBody ''Failed to logout user''), st1)
            | (Inr None, st1) \<Rightarrow> (respond 404 (ErrorBody ''User not found''), st1)
            | (Inr (Some user), st1) \<Rightarrow>
                (case saveUser env (toKey userId)
                        (\<lambda>u. u\<lparr>u_accessToken := Some '''', u_refreshToken := Some ''''\<rparr>) st1 of
                   (Inl err, st2) \<Rightarrow> (respond 500 (ErrorBody ''Failed to logout user''), st2)
                 | (Inr u, st2) \<Rightarrow>
                     (\<lparr>rp_status = 200, rp_body = MessageBody ''Logged out successfully'',
                       rp_clearCookie = True\<rparr>, st2))))"

section \<open>deleteTrackFromDraft (lines 261-279)\<close>

text \<open>
  \<open>find\<close> returns the first draft with the id, an element of the user's array, and
  the assignment to \<open>draft.tracks\<close> changes that element: the position is kept and
  the array updated there.
\<close>

definition deleteTrackFromDraft ::
    "'w env \<Rightarrow> string option \<Rightarrow> string option \<Rightarrow> string option \<Rightarrow> 'w sys \<Rightarrow> http_response \<times> 'w sys" where
  "deleteTrackFromDraft env userId draftId trackId st =
     (if \<not> truthy userId then (respond 401 (ErrorBody ''Not authenticated.''), st)
      else (case findById env userId st of
              (Inl err, st1) \<Rightarrow> (respond 500 (ErrorBody ''Failed to delete track.''), st1)
            | (Inr None, st1) \<Rightarrow> (respond 404 (ErrorBody ''Draft not found.''), st1)
            | (Inr (Some user), st1) \<Rightarrow>
                (case findIndex (\<lambda>p. Some (d_id p) = draftId) (u_spotify_playlists user) of
                   None \<Rightarrow> (respond 404 (ErrorBody ''Draft not found.''), st1)
                 | Some i \<Rightarrow>
                     (let old = u_spotify_playlists user ! i;
                          draft = old\<lparr>d_tracks := filter (\<lambda>t. tk_id t \<noteq> trackId) (d_tracks old)\<rparr>
                      in case saveUser env (toKey userId)
                                (\<lambda>u. u\<lparr>u_spotify_playlists := (u_spotify_playlists user)[i := draft]\<rparr>) st1 of
                           (Inl err, st2) \<Rightarrow> (respond 500 (ErrorBody ''Failed to delete track.''), st2)
                         | (Inr u, st2) \<Rightarrow> (respond 200 (DraftBody ''Track deleted.'' draft), st2)))))"

section \<open>pushDraftToSpotify (lines 284-340)\<close>












text \<open>Batching in the specification's words: consecutive groups of at most 100.\<close>

fun specBatches :: "'a list \<Rightarrow> 'a list list" where
  "specBatches [] = []"
| "specBatches (x # xs) = take 100 (x # xs) # specBatches (drop 100 (x # xs))"

text \<open>The drafts stored for each user.\<close>

definition storedDrafts :: "'w sys \<Rightarrow> string \<Rightarrow> draft list option" where
  "storedDrafts st uid = map_option u_spotify_playlists (users st uid)"

text \<open>
  A stretch of a run that leaves every user's drafts and the published playlists as
  they were and makes no first attempt of a call.
\<close>

definition quiet :: "'w sys \<Rightarrow> 'w sys \<Rightarrow> bool" where
  "quiet st st' \<longleftrightarrow>
     playlists st' = playlists st \<and> storedDrafts st' = storedDrafts st \<and>
     (\<exists>rest. events st' = events st @ rest \<and> list_all (\<lambda>e. \<not> isFirstAttempt e) rest)"

text \<open>
  The Credential of the specification is the provider's token pair of a user; it is
  cleared when neither token is left.
\<close>

definition credentialCleared :: "user \<Rightarrow> bool" where
  "credentialCleared u \<longleftrightarrow> \<not> truthy (u_spotify_accessToken u) \<and> \<not> truthy (u_spotify_refreshToken u)"

text \<open>A database that answers every operation.\<close>

definition dbWorks :: "'w env \<Rightarrow> bool" where
  "dbWorks env \<longleftrightarrow> (\<forall>op w. fst (db env op w) = None)"


section \<open>generatePlaylist (lines 88-256)\<close>

text \<open>\<open>Array.prototype.join\<close>: \<open>undefined\<close> and \<open>null\<close> elements are rendered empty.\<close>

fun joinStrings :: "string \<Rightarrow> string option list \<Rightarrow> string" where
  "joinStrings sep [] = []"
| "joinStrings sep [x] = (case x of None \<Rightarrow> [] | Some s \<Rightarrow> s)"
| "joinStrings sep (x # y # ys) =
     (case x of None \<Rightarrow> [] | Some s \<Rightarrow> s) @ sep @ joinStrings sep (y # ys)"

text \<open>\<open>xs.slice(0, n)\<close> for an integer \<open>n\<close>: a negative end counts from the end.\<close>

definition sliceFromStart :: "int \<Rightarrow> 'a list \<Rightarrow> 'a list" where
  "sliceFromStart n xs = (if n < 0 then take (nat (int (length xs) + n)) xs else take (nat n) xs)"

text \<open>The decimal digits of a number, as a template literal prints it.\<close>

fun showNat :: "nat \<Rightarrow> string" where
  "showNat n =
     (if n < 10 then [''0123456789'' ! n]
      else showNat (n div 10) @ [''0123456789'' ! (n mod 10)])"

declare showNat.simps [simp del]

text \<open>How a seed genre reads inside the search query's template literal.\<close>

fun genreText :: "genre \<Rightarrow> string" where
  "genreText (Genre s) = s"
| "genreText (PrototypeMember m) =
     (if m = ''__proto__'' then ''[object Object]''
      else ''function '' @ (if m = ''constructor'' then ''Object'' else m) @ ''() { [native code] }'')"

definition tokenUrl :: string where
  "tokenUrl = ''https://accounts.spotify.com/api/token''"

definition getAppAccessToken :: "'w env \<Rightarrow> 'w sys \<Rightarrow> (error + string option) \<times> 'w sys" where
  "getAppAccessToken env st =
     (if \<not> truthy (SPOTIFY_CLIENT_ID env) \<or> \<not> truthy (SPOTIFY_CLIENT_SECRET env)
      then (Inl (PlainError ''Missing SPOTIFY_CLIENT_ID / SPOTIFY_CLIENT_SECRET in env''), st)
      else (case httpCall env AppTokenExchange
                   \<lparr>rq_method = POST, rq_url = tokenUrl,
                    rq_data = FormData [(''grant_type'', ''client_credentials'')],
                    rq_authorization =
                      Some (Basic (toKey (SPOTIFY_CLIENT_ID env)) (toKey (SPOTIFY_CLIENT_SECRET env))),
                    rq_contentType = Some ''application/x-www-form-urlencoded'',
                    rq_params = []\<rparr> st of
              (Inl err, st1) \<Rightarrow> (Inl err, st1)
            | (Inr resp, st1) \<Rightarrow> (Inr (rs_access_token resp), st1)))"

text \<open>
  \<open>fetchArtistTopTracks\<close> (lines 79-83) returns \<open>res.data.tracks || []\<close>; its caller
  appends the first five only when the value has a non-zero \<open>length\<close>, which a page
  object has not, so such a value contributes what an empty array does.
\<close>

definition fetchArtistTopTracks ::
    "'w env \<Rightarrow> string option \<Rightarrow> string option \<Rightarrow> 'w sys \<Rightarrow> (error + raw_track option list) \<times> 'w sys" where
  "fetchArtistTopTracks env artistId token st =
     (case spotifyRequest env GET
             (''https://api.spotify.com/v1/artists/'' @ toKey artistId @ ''/top-tracks'')
             \<lparr>o_accessToken = token, o_appToken = token, o_data = NoData,
              o_params = [(''market'', ''US'')], o_refreshToken = None, o_userId = None\<rparr> st of
        (Inl err, st1) \<Rightarrow> (Inl err, st1)
      | (Inr res, st1) \<Rightarrow>
          (Inr (case rs_tracks res of TracksArray xs \<Rightarrow> xs | _ \<Rightarrow> []), st1))"

text \<open>
  The loop over the top artists (lines 159-166). A failed fetch is logged and skipped.
  A \<open>null\<close> artist makes \<open>a.id\<close> throw and then \<open>a.name\<close> in the handler throw
  again, which the outer handler of line 167 catches: the loop ends there.
\<close>

fun artistLoop ::
    "'w env \<Rightarrow> string option \<Rightarrow> raw_track option list \<Rightarrow> raw_track option list \<Rightarrow> 'w sys
      \<Rightarrow> raw_track option list \<times> 'w sys" where
  "artistLoop env userToken [] candidateTracks st = (candidateTracks, st)"
| "artistLoop env userToken (a # topArtists) candidateTracks st =
     (case a of
        None \<Rightarrow> (candidateTracks, st)
      | Some artist \<Rightarrow>
          (case fetchArtistTopTracks env (rt_id artist) userToken st of
             (Inl err, st1) \<Rightarrow> artistLoop env userToken topArtists candidateTracks st1
           | (Inr artistTop, st1) \<Rightarrow>
               artistLoop env userToken topArtists (candidateTracks @ take 5 artistTop) st1))"

text \<open>
  Lines 139-170. The two requests of \<open>Promise.all\<close> are both made whatever the other
  answers; they are taken in the order they are issued.
\<close>

definition personalize ::
    "'w env \<Rightarrow> string option \<Rightarrow> string option \<Rightarrow> string option \<Rightarrow> 'w sys
      \<Rightarrow> raw_track option list \<times> 'w sys" where
  "personalize env userToken refreshToken userId st =
     (let o' = \<lparr>o_accessToken = userToken, o_appToken = None, o_data = NoData, o_params = [],
                o_refreshToken = refreshToken, o_userId = userId\<rparr>
      in case spotifyRequest env GET ''https://api.spotify.com/v1/me/top/tracks?limit=5'' o' st of
           (tracksRes, st1) \<Rightarrow>
             (case spotifyRequest env GET ''https://api.spotify.com/v1/me/top/artists?limit=5'' o' st1 of
                (artistsRes, st2) \<Rightarrow>
                  (case (tracksRes, artistsRes) of
                     (Inr t, Inr a) \<Rightarrow>
                       artistLoop env userToken (case rs_items a of Some xs \<Rightarrow> xs | None \<Rightarrow> [])
                         (case rs_items t of Some xs \<Rightarrow> xs | None \<Rightarrow> []) st2
                   | _ \<Rightarrow> ([], st2))))"

text \<open>The search per seed genre (lines 173-186); a failed search is logged and skipped.\<close>

fun searchLoop ::
    "'w env \<Rightarrow> opts \<Rightarrow> string \<Rightarrow> genre list \<Rightarrow> raw_track option list \<Rightarrow> 'w sys
      \<Rightarrow> raw_track option list \<times> 'w sys" where
  "searchLoop env o' mood [] candidateTracks st = (candidateTracks, st)"
| "searchLoop env o' mood (g # gs) candidateTracks st =
     (case spotifyRequest env GET ''https://api.spotify.com/v1/search''
             (o'\<lparr>o_params := [(''q'', genreText g @ '' '' @ mood), (''type'', ''track''),
                              (''limit'', ''50''), (''market'', ''US'')]\<rparr>) st of
        (Inl err, st1) \<Rightarrow> searchLoop env o' mood gs candidateTracks st1
      | (Inr res, st1) \<Rightarrow>
          searchLoop env o' mood gs
            (candidateTracks @ (case rs_tracks res of TracksPage (Some xs) \<Rightarrow> xs | _ \<Rightarrow> [])) st1)"

text \<open>Lines 197-210: the audio features of the first hundred; a failed fetch leaves the map empty.\<close>

definition fetchFeaturesMap ::
    "'w env \<Rightarrow> opts \<Rightarrow> raw_track list \<Rightarrow> 'w sys \<Rightarrow> (string \<rightharpoonup> features) \<times> 'w sys" where
  "fetchFeaturesMap env o' candidateTracks st =
     (case spotifyRequest env GET ''https://api.spotify.com/v1/audio-features''
             (o'\<lparr>o_params := [(''ids'', joinStrings '','' (poolIds candidateTracks))]\<rparr>) st of
        (Inl err, st1) \<Rightarrow> (Map.empty, st1)
      | (Inr resp, st1) \<Rightarrow>
          (buildFeaturesMap (case rs_audio_features resp of Some fs \<Rightarrow> fs | None \<Rightarrow> []), st1))"

text \<open>The public shape of a selected track (lines 225-232).\<close>

definition firstImage :: "raw_track \<Rightarrow> string option" where
  "firstImage t =
     (case rt_album t of
        None \<Rightarrow> None
      | Some al \<Rightarrow>
          (case alb_images al of
             None \<Rightarrow> None
           | Some [] \<Rightarrow> None
           | Some (im # ims) \<Rightarrow> if truthy (img_url im) then img_url im else None))"

definition finalTrack :: "raw_track \<Rightarrow> track" where
  "finalTrack t =
     \<lparr>tk_id = rt_id t, tk_name = rt_name t,
      tk_artist = joinStrings '', '' (map art_name (case rt_artists t of None \<Rightarrow> [] | Some as \<Rightarrow> as)),
      tk_uri = rt_uri t, tk_image = firstImage t,
      tk_preview = (if truthy (rt_preview_url t) then rt_preview_url t else None)\<rparr>"

record gen_body =
  g_mood :: "string option"
  g_genres :: "string list option"
  g_count :: "int option"

definition generateFailed :: http_response where
  "generateFailed = respond 500 (ErrorBody ''Failed to generate playlist.'')"

definition userToken :: "user option \<Rightarrow> string option" where
  "userToken user = (case user of None \<Rightarrow> None | Some u \<Rightarrow> u_spotify_accessToken u)"

definition userRefreshToken :: "user option \<Rightarrow> string option" where
  "userRefreshToken user = (case user of None \<Rightarrow> None | Some u \<Rightarrow> u_spotify_refreshToken u)"

text \<open>Lines 100-110: the user, and an application token when the user has no token.\<close>

definition connect ::
    "'w env \<Rightarrow> string option \<Rightarrow> 'w sys \<Rightarrow> (error + user option \<times> string option) \<times> 'w sys" where
  "connect env userId st =
     (case (if truthy userId then findById env userId st else (Inr None, st)) of
        (Inl err, st1) \<Rightarrow> (Inl err, st1)
      | (Inr user, st1) \<Rightarrow>
          if \<not> truthy (userToken user)
          then (case getAppAccessToken env st1 of
                  (Inl err, st2) \<Rightarrow> (Inl err, st2)
                | (Inr appToken, st2) \<Rightarrow> (Inr (user, appToken), st2))
          else (Inr (user, None), st1))"

definition requestOpts :: "string option \<Rightarrow> user option \<Rightarrow> string option \<Rightarrow> opts" where
  "requestOpts userId user appToken =
     \<lparr>o_accessToken = userToken user, o_appToken = appToken, o_data = NoData, o_params = [],
      o_refreshToken = userRefreshToken user, o_userId = userId\<rparr>"

text \<open>Lines 136-186: the candidates collected from the provider.\<close>

definition collectCandidates ::
    "'w env \<Rightarrow> string option \<Rightarrow> user option \<Rightarrow> string option \<Rightarrow> string \<Rightarrow> genre list \<Rightarrow> 'w sys
      \<Rightarrow> raw_track option list \<times> 'w sys" where
  "collectCandidates env userId user appToken mood seeds st =
     (case (if truthy (userToken user)
            then personalize env (userToken user) (userRefreshToken user) userId st
            else ([], st)) of
        (candidateTracks, st1) \<Rightarrow>
          searchLoop env (requestOpts userId user appToken) mood seeds candidateTracks st1)"

text \<open>
  Lines 222-242: the pool is sorted under the random comparator, cut to \<open>count\<close> and
  shaped into a draft; the clock is read for the id and again for \<open>createdAt\<close>.
\<close>

definition makeDraft ::
    "'w env \<Rightarrow> string \<Rightarrow> genre list \<Rightarrow> int \<Rightarrow> raw_track list \<Rightarrow> 'w \<Rightarrow> draft \<times> 'w" where
  "makeDraft env mood seeds count' pool' w =
     (case sortRandom env pool' w of
        (shuffled, w1) \<Rightarrow>
          (case dateNow env w1 of
             (idTime, w2) \<Rightarrow>
               (case dateNow env w2 of
                  (createdAt, w3) \<Rightarrow>
                    (\<lparr>d_id = ''draft_'' @ showNat idTime, d_mood = mood, d_genres = seeds,
                      d_count = count',
                      d_tracks = map finalTrack (sliceFromStart count' shuffled),
                      d_status = ''draft'', d_createdAt = createdAt\<rparr>, w3))))"

text \<open>Lines 188-251, from the collected candidates to the response.\<close>

definition assembleDraft ::
    "'w env \<Rightarrow> string option \<Rightarrow> user option \<Rightarrow> string option \<Rightarrow> string \<Rightarrow> genre list \<Rightarrow> int
      \<Rightarrow> raw_track option list \<Rightarrow> 'w sys \<Rightarrow> http_response \<times> 'w sys" where
  "assembleDraft env userId user appToken mood seeds count' collected st =
     (let candidateTracks = dedupe collected in
      if candidateTracks = [] then (respond 404 (ErrorBody ''No tracks found.''), st)
      else (case fetchFeaturesMap env (requestOpts userId user appToken) candidateTracks st of
              (featuresMap, st1) \<Rightarrow>
                (case makeDraft env mood seeds count'
                        (pool (target (toLowerCase env) mood) featuresMap candidateTracks) (world st1) of
                   (draft, w) \<Rightarrow>
                     (case user of
                        None \<Rightarrow>
                          (respond 200 (DraftBody ''Playlist generated successfully.'' draft),
                           st1\<lparr>world := w\<rparr>)
                      | Some u \<Rightarrow>
                          (case saveUser env (toKey userId)
                                  (\<lambda>x. x\<lparr>u_spotify_playlists := u_spotify_playlists u @ [draft]\<rparr>)
                                  (st1\<lparr>world := w\<rparr>) of
                             (Inl err, st2) \<Rightarrow> (generateFailed, st2)
                           | (Inr r, st2) \<Rightarrow>
                               (respond 200 (DraftBody ''Playlist generated successfully.'' draft),
                                st2))))))"

text \<open>\<open>count = 20\<close>: the default of the destructuring, taken when the body has no count.\<close>

definition requestedCount :: "gen_body \<Rightarrow> int" where
  "requestedCount body' = (case g_count body' of None \<Rightarrow> 20 | Some c \<Rightarrow> c)"

definition generatePlaylist ::
    "'w env \<Rightarrow> string option \<Rightarrow> gen_body \<Rightarrow> 'w sys \<Rightarrow> http_response \<times> 'w sys" where
  "generatePlaylist env userId body' st =
     (let mood = g_mood body';
          genres = (case g_genres body' of None \<Rightarrow> [] | Some gs \<Rightarrow> gs);
          count' = requestedCount body'
      in if \<not> truthy mood \<or> genres = []
         then (respond 400 (ErrorBody ''Mood + at least one genre required.''), st)
         else (case connect env userId st of
                 (Inl err, st1) \<Rightarrow> (generateFailed, st1)
               | (Inr (user, appToken), st1) \<Rightarrow>
                   (case collectCandidates env userId user appToken (toKey mood) (seedGenres (toLowerCase env) genres) st1 of
                      (collected, st2) \<Rightarrow>
                        assembleDraft env userId user appToken (toKey mood) (seedGenres (toLowerCase env) genres) count'
                          collected st2)))"

text \<open>The tracks of the draft a response carries.\<close>

definition draftTracks :: "http_response \<Rightarrow> track list" where
  "draftTracks resp = (case rp_body resp of DraftBody m d \<Rightarrow> d_tracks d | _ \<Rightarrow> [])"

text \<open>The published playlists and every user's drafts are the same in two states.\<close>

definition sameDrafts :: "'w sys \<Rightarrow> 'w sys \<Rightarrow> bool" where
  "sameDrafts st st' \<longleftrightarrow> playlists st' = playlists st \<and> storedDrafts st' = storedDrafts st"

section \<open>Concrete scenarios\<close>

definition trackA :: raw_track where
  "trackA = \<lparr>rt_id = Some ''a'', rt_name = Some ''First'', rt_artists = None, rt_uri = Some ''spotify:track:a'',
             rt_album = None, rt_preview_url = None\<rparr>"

definition trackA2 :: raw_track where
  "trackA2 = \<lparr>rt_id = Some ''a'', rt_name = Some ''Again'', rt_artists = None, rt_uri = Some ''spotify:track:a'',
              rt_album = None, rt_preview_url = None\<rparr>"

definition trackB :: raw_track where
  "trackB = \<lparr>rt_id = Some ''b'', rt_name = Some ''Second'', rt_artists = None, rt_uri = Some ''spotify:track:b'',
             rt_album = None, rt_preview_url = None\<rparr>"

definition emptyResponse :: response where
  "emptyResponse = \<lparr>rs_access_token = None, rs_id = None, rs_name = None, rs_items = None,
                     rs_tracks = TracksUndefined, rs_audio_features = None\<rparr>"

text \<open>
  A provider that rejects every token but \<open>fresh\<close> with status 401 and hands out
  \<open>fresh\<close> at the token endpoint; a database that never fails.
\<close>

definition expiringProvider :: "request \<Rightarrow> unit \<Rightarrow> (error + response) \<times> unit" where
  "expiringProvider rq w =
     (if rq_url rq = tokenUrl then (Inr (emptyResponse\<lparr>rs_access_token := Some ''fresh''\<rparr>), w)
      else if rq_authorization rq = Some (Bearer ''fresh'')
           then (Inr (emptyResponse\<lparr>rs_id := Some ''pl1'', rs_name := Some ''chill playlist''\<rparr>), w)
           else (Inl (AxiosError (Some 401) ''Request failed with status code 401''), w))"

definition expiringEnv :: "unit env" where
  "expiringEnv =
     \<lparr>axios = expiringProvider, db = (\<lambda>op w. (None, w)), dateNow = (\<lambda>w. (42, w)),
      sortRandom = (\<lambda>xs w. (rev xs, w)),
      toLowerCase = asciiLowerCase,
      SPOTIFY_CLIENT_ID = Some ''client'', SPOTIFY_CLIENT_SECRET = Some ''secret''\<rparr>"

definition draftOne :: draft where
  "draftOne = \<lparr>d_id = ''draft_1'', d_mood = ''chill'', d_genres = [Genre ''pop''], d_count = 2,
              d_tracks = [finalTrack trackA, finalTrack trackB], d_status = ''draft'', d_createdAt = 1\<rparr>"

definition draftTwo :: draft where
  "draftTwo = \<lparr>d_id = ''draft_2'', d_mood = ''sad'', d_genres = [Genre ''rock''], d_count = 1,
              d_tracks = [finalTrack trackA], d_status = ''draft'', d_createdAt = 2\<rparr>"

definition alice :: user where
  "alice = \<lparr>u_email = ''alice@example.org'', u_accessToken = Some ''jwt-access'',
            u_refreshToken = Some ''jwt-refresh'', u_spotify_accessToken = Some ''stale'',
            u_spotify_refreshToken = Some ''refresh-1'', u_spotify_playlists = [draftOne, draftTwo]\<rparr>"

definition oneUser :: "unit sys" where
  "oneUser = \<lparr>world = (), users = [''u1'' \<mapsto> alice], playlists = [], events = []\<rparr>"

definition aliceOpts :: opts where
  "aliceOpts = \<lparr>o_accessToken = Some ''stale'', o_appToken = None, o_data = NoData, o_params = [],
               o_refreshToken = Some ''refresh-1'', o_userId = Some ''u1''\<rparr>"

text \<open>A call that carries the refresh token of \<open>alice\<close> but no user id.\<close>

definition refreshOnlyOpts :: opts where
  "refreshOnlyOpts = \<lparr>o_accessToken = Some ''stale'', o_appToken = None, o_data = NoData, o_params = [],
                     o_refreshToken = Some ''refresh-1'', o_userId = None\<rparr>"

definition calmFeatures :: features where
  "calmFeatures = [''id'' \<mapsto> JString ''a'', ''energy'' \<mapsto> JNumber (3/10),
                   ''danceability'' \<mapsto> JNumber (1/2), ''valence'' \<mapsto> JNumber (1/2)]"

definition hotFeatures :: features where
  "hotFeatures = [''id'' \<mapsto> JString ''b'', ''energy'' \<mapsto> JNumber (9/10),
                  ''danceability'' \<mapsto> JNumber (1/2), ''valence'' \<mapsto> JNumber (1/2)]"











text \<open>
  A provider with a small catalogue: the search finds three tracks, two of them with
  the same id, and the audio features of both ids are known.
\<close>

definition catalogueProvider :: "request \<Rightarrow> unit \<Rightarrow> (error + response) \<times> unit" where
  "catalogueProvider rq w =
     (if rq_url rq = tokenUrl then (Inr (emptyResponse\<lparr>rs_access_token := Some ''app-token''\<rparr>), w)
      else if rq_url rq = ''https://api.spotify.com/v1/search''
           then (Inr (emptyResponse\<lparr>rs_tracks := TracksPage (Some [Some trackA, Some trackB, Some trackA2])\<rparr>), w)
      else if rq_url rq = ''https://api.spotify.com/v1/audio-features''
           then (Inr (emptyResponse\<lparr>rs_audio_features := Some [Some calmFeatures, Some hotFeatures]\<rparr>), w)
      else (Inr emptyResponse, w))"

definition catalogueEnv :: "unit env" where
  "catalogueEnv =
     \<lparr>axios = catalogueProvider, db = (\<lambda>op w. (None, w)), dateNow = (\<lambda>w. (42, w)),
      sortRandom = (\<lambda>xs w. (rev xs, w)),
      toLowerCase = asciiLowerCase,
      SPOTIFY_CLIENT_ID = Some ''client'', SPOTIFY_CLIENT_SECRET = Some ''secret''\<rparr>"

definition noUsers :: "unit sys" where
  "noUsers = \<lparr>world = (), users = Map.empty, playlists = [], events = []\<rparr>"

definition chillPop :: gen_body where
  "chillPop = \<lparr>g_mood = Some ''chill'', g_genres = Some [''pop''], g_count = Some 2\<rparr>"

definition hypePop :: gen_body where
  "hypePop = \<lparr>g_mood = Some ''hype'', g_genres = Some [''pop''], g_count = Some 2\<rparr>"

section \<open>Deduplication keeps the first candidate of each id, in order\<close>

lemma byIdStep_alt:
  "byIdStep acc c =
     (case candidateId c of
        None \<Rightarrow> acc
      | Some k \<Rightarrow> if k \<in> set (map fst acc) then acc else acc @ [(k, the c)])"
proof (cases c)
  case None
  then show ?thesis by (simp add: byIdStep_def candidateId_def)
next
  case (Some t)
  then show ?thesis by (cases "rt_id t") (simp_all add: byIdStep_def candidateId_def)
qed

lemma byId_snoc:
  "foldl byIdStep [] (cs @ [c]) =
     (case candidateId c of
        None \<Rightarrow> foldl byIdStep [] cs
      | Some k \<Rightarrow> if k \<in> set (map fst (foldl byIdStep [] cs)) then foldl byIdStep [] cs
                  else foldl byIdStep [] cs @ [(k, the c)])"
  using byIdStep_alt [of "foldl byIdStep [] cs" c] by simp

lemma byId_keyset:
  "k \<in> set (map fst (foldl byIdStep [] cs)) \<longleftrightarrow> Some k \<in> set (map candidateId cs)"
proof (induction cs rule: rev_induct)
  case Nil
  show ?case by simp
next
  case (snoc c cs)
  show ?case
  proof (cases "candidateId c")
    case None
    with snoc byId_snoc [of cs c] show ?thesis by simp
  next
    case (Some j)
    with snoc byId_snoc [of cs c] show ?thesis by auto
  qed
qed

lemma firstSeen_append_old:
  "i < length cs \<Longrightarrow> firstSeen (cs @ [c]) i = firstSeen cs i"
  by (simp add: firstSeen_def nth_append)

lemma firstSeen_append_new:
  "firstSeen (cs @ [c]) (length cs) =
     (candidateId c \<noteq> None \<and> candidateId c \<notin> set (map candidateId cs))"
  by (simp add: firstSeen_def)

lemma firstSeen_positions_snoc:
  "filter (firstSeen (cs @ [c])) [0..<length (cs @ [c])] =
     filter (firstSeen cs) [0..<length cs] @ (if firstSeen (cs @ [c]) (length cs) then [length cs] else [])"
proof -
  have "filter (firstSeen (cs @ [c])) [0..<length cs] = filter (firstSeen cs) [0..<length cs]"
    by (rule filter_cong) (simp_all add: firstSeen_append_old)
  then show ?thesis by simp
qed

lemma map_old_positions:
  "map (\<lambda>i. f ((cs @ [c]) ! i)) (filter P [0..<length cs]) = map (\<lambda>i. f (cs ! i)) (filter P [0..<length cs])"
  by (rule map_cong) (simp_all add: nth_append)


lemma byId_entries:
  "foldl byIdStep [] cs =
     map (\<lambda>i. (the (candidateId (cs ! i)), the (cs ! i))) (filter (firstSeen cs) [0..<length cs])"
proof (induction cs rule: rev_induct)
  case Nil
  show ?case by simp
next
  case (snoc c cs)
  let ?acc = "foldl byIdStep [] cs"
  let ?g = "\<lambda>xs i. (the (candidateId (xs ! i)), the (xs ! i))"
  let ?old = "filter (firstSeen cs) [0..<length cs]"
  have old: "map (?g (cs @ [c])) ?old = ?acc"
    using map_old_positions [of "\<lambda>x. (the (candidateId x), the x)" cs c "firstSeen cs"] snoc.IH
    by simp
  have new: "?g (cs @ [c]) (length cs) = (the (candidateId c), the c)"
    by simp
  have pos: "map (?g (cs @ [c])) (filter (firstSeen (cs @ [c])) [0..<length (cs @ [c])]) =
      ?acc @ (if firstSeen (cs @ [c]) (length cs) then [(the (candidateId c), the c)] else [])"
    unfolding firstSeen_positions_snoc map_append old using new by simp
  show ?case
  proof (cases "candidateId c")
    case None
    then have "\<not> firstSeen (cs @ [c]) (length cs)" by (simp add: firstSeen_append_new)
    with None byId_snoc [of cs c] pos show ?thesis by simp
  next
    case (Some k)
    have "firstSeen (cs @ [c]) (length cs) = (k \<notin> set (map fst ?acc))"
      using Some byId_keyset [of k cs] by (simp add: firstSeen_append_new)
    with Some byId_snoc [of cs c] pos show ?thesis by simp
  qed
qed


lemma byId_distinct: "distinct (map fst (foldl byIdStep [] cs))"
proof (induction cs rule: rev_induct)
  case Nil
  show ?case by simp
next
  case (snoc c cs)
  with byId_snoc [of cs c] show ?case by (cases "candidateId c") auto
qed

lemma candidateId_Some: "candidateId c = Some k \<Longrightarrow> rt_id (the c) = Some k"
  by (cases c) (auto simp: candidateId_def split: if_splits)

lemma byId_ids: "map (rt_id \<circ> snd) (foldl byIdStep [] cs) = map (Some \<circ> fst) (foldl byIdStep [] cs)"
proof (induction cs rule: rev_induct)
  case Nil
  show ?case by simp
next
  case (snoc c cs)
  with byId_snoc [of cs c] show ?case by (cases "candidateId c") (auto dest: candidateId_Some)
qed

lemma dedupe_ids: "map rt_id (dedupe cs) = map Some (map fst (foldl byIdStep [] cs))"
  using byId_ids [of cs] by (simp add: dedupe_def)

text \<open>
  Claim C4. For every collected candidate list, the deduplicated pool is the list of the
  candidates that are the first with their id, in the order of the list: every id of
  the list occurs exactly once in it (no id twice, none missing), the track kept for it
  is its first occurrence, and the first-seen order is preserved. A \<open>null\<close>
  candidate or one without an id has no id to be filed under and is left out.
\<close>

theorem dedupe_first_seen:
  "dedupe cs = map (\<lambda>i. the (cs ! i)) (filter (firstSeen cs) [0..<length cs])
   \<and> distinct (map rt_id (dedupe cs))
   \<and> set (map rt_id (dedupe cs)) = set (map candidateId cs) - {None}"
proof -
  have a: "dedupe cs = map (\<lambda>i. the (cs ! i)) (filter (firstSeen cs) [0..<length cs])"
    unfolding dedupe_def byId_entries [of cs] by (simp add: comp_def)
  have b: "distinct (map rt_id (dedupe cs))"
  proof -
    have "inj_on Some (set (map fst (foldl byIdStep [] cs)))" by (simp add: inj_on_def)
    with byId_distinct [of cs] have "distinct (map Some (map fst (foldl byIdStep [] cs)))"
      by (simp only: distinct_map)
    then show ?thesis by (simp only: dedupe_ids)
  qed
  have c: "set (map rt_id (dedupe cs)) = set (map candidateId cs) - {None}"
  proof (rule set_eqI)
    fix x
    show "x \<in> set (map rt_id (dedupe cs)) \<longleftrightarrow> x \<in> set (map candidateId cs) - {None}"
    proof (cases x)
      case None
      then show ?thesis unfolding dedupe_ids by auto
    next
      case (Some k)
      then show ?thesis unfolding dedupe_ids using byId_keyset [of k cs] by auto
    qed
  qed
  from a b c show ?thesis by simp
qed

section \<open>spotifyRequest refreshes once and retries once\<close>

lemma httpCall_run:
  "axios env rq (world st) = (r, w) \<Longrightarrow>
   httpCall env tag rq st = (r, st\<lparr>world := w, events := events st @ [tag rq]\<rparr>)"
  by (simp add: httpCall_def)

text \<open>
  Claim C2 as stated fails: a refresh token alone does not start the refresh. The guard
  of line 42 also asks for \<open>opts.userId\<close>, so a call that carries a refresh token
  but no user id and is answered with 401 returns that 401 at once: the first attempt
  is the only outbound call, no refresh exchange takes place and nothing is retried.
\<close>

theorem spotifyRequest_needs_user_id_counterexample:
  "truthy (o_refreshToken refreshOnlyOpts) \<and>
   spotifyRequest expiringEnv GET ''https://api.spotify.com/v1/search'' refreshOnlyOpts oneUser =
     (Inl (AxiosError (Some 401) ''Request failed with status code 401''),
      oneUser\<lparr>events := [FirstAttempt (apiRequest GET ''https://api.spotify.com/v1/search'' refreshOnlyOpts
                                          (Some (Bearer ''stale'')))]\<rparr>) \<and>
   filter isRefreshExchange
     (newEvents oneUser (snd (spotifyRequest expiringEnv GET ''https://api.spotify.com/v1/search'' refreshOnlyOpts oneUser))) = []"
  by (simp add: spotifyRequest_def httpCall_def apiRequest_def requestHeaders_def requestToken_def
      refreshOnlyOpts_def expiringEnv_def expiringProvider_def tokenUrl_def oneUser_def newEvents_def)

text \<open>
  Claim C2, amended: for a call through \<open>spotifyRequest\<close> that carries a refresh
  token and the id of the user it belongs to, the result and the final state are
  determined by the answers of the provider and of the database as follows. Let
  \<open>r0\<close> be the provider's answer to the first attempt and \<open>r1\<close> its answer to the
  refresh exchange.

  \<^item> If \<open>r0\<close> is a success, or a failure other than HTTP 401, it is the result; the
    first attempt is the only outbound call and no stored user changes.
  \<^item> If \<open>r0\<close> is a 401, one refresh exchange follows. If it fails, or its response
    carries no access token, or the database refuses to store the token, that error is
    the result, the log ends with the refresh exchange and no stored user changes.
  \<^item> Otherwise the \<open>access_token\<close> of the refresh response is stored in the
    credential of that user id, the original request is sent once more with that token
    as its bearer, and the answer to this retry, success or failure, is the result:
    the log is the first attempt, the refresh exchange, the store and the retry.

  So there is one first attempt, one refresh exchange exactly when the first answer is
  a 401, and never more than one retry.
\<close>

theorem spotifyRequest_refresh_once:
  assumes rt: "truthy (o_refreshToken o')" and uid: "truthy (o_userId o')"
    and first: "axios env (apiRequest m url o' (requestHeaders (requestToken o'))) (world st) = (r0, w0)"
    and refresh: "axios env (refreshRequest env (toKey (o_refreshToken o'))) w0 = (r1, w1)"
    and run: "spotifyRequest env m url o' st = (res, st')"
  shows
    "(case r0 of
       Inr resp \<Rightarrow>
         res = Inr resp \<and>
         st' = st\<lparr>world := w0,
                  events := events st @ [FirstAttempt (apiRequest m url o' (requestHeaders (requestToken o')))]\<rparr>
     | Inl err \<Rightarrow>
         if responseStatus err \<noteq> Some 401
         then res = Inl err \<and>
              st' = st\<lparr>world := w0,
                       events := events st @ [FirstAttempt (apiRequest m url o' (requestHeaders (requestToken o')))]\<rparr>
         else (case r1 of
                 Inl refreshErr \<Rightarrow>
                   res = Inl refreshErr \<and>
                   st' = st\<lparr>world := w1,
                            events := events st @
                              [FirstAttempt (apiRequest m url o' (requestHeaders (requestToken o'))),
                               RefreshExchange (refreshRequest env (toKey (o_refreshToken o')))]\<rparr>
               | Inr refreshResp \<Rightarrow>
                   if \<not> truthy (rs_access_token refreshResp)
                   then res = Inl (PlainError ''No new access token returned.'') \<and>
                        st' = st\<lparr>world := w1,
                                 events := events st @
                                   [FirstAttempt (apiRequest m url o' (requestHeaders (requestToken o'))),
                                    RefreshExchange (refreshRequest env (toKey (o_refreshToken o')))]\<rparr>
                   else (case db env (FindByIdAndUpdate (toKey (o_userId o')) (toKey (rs_access_token refreshResp))) w1 of
                           (Some msg, w2) \<Rightarrow>
                             res = Inl (DbError msg) \<and>
                             st' = st\<lparr>world := w2,
                                      events := events st @
                                        [FirstAttempt (apiRequest m url o' (requestHeaders (requestToken o'))),
                                         RefreshExchange (refreshRequest env (toKey (o_refreshToken o')))]\<rparr>
                         | (None, w2) \<Rightarrow>
                             (case axios env (apiRequest m url o' (Some (Bearer (toKey (rs_access_token refreshResp))))) w2 of
                                (r3, w3) \<Rightarrow>
                                  res = r3 \<and>
                                  st' = st\<lparr>world := w3,
                                           users := setSpotifyAccessToken (users st) (toKey (o_userId o'))
                                                      (toKey (rs_access_token refreshResp)),
                                           events := events st @
                                             [FirstAttempt (apiRequest m url o' (requestHeaders (requestToken o'))),
                                              RefreshExchange (refreshRequest env (toKey (o_refreshToken o'))),
                                              PersistToken (toKey (o_userId o')) (toKey (rs_access_token refreshResp)),
                                              Retry (apiRequest m url o'
                                                       (Some (Bearer (toKey (rs_access_token refreshResp)))))]\<rparr>)))) \<and>
     length (filter isFirstAttempt (newEvents st st')) = 1 \<and>
     length (filter isRefreshExchange (newEvents st st')) =
       (case r0 of Inr resp \<Rightarrow> 0 | Inl err \<Rightarrow> if responseStatus err = Some 401 then 1 else 0) \<and>
     length (filter isRetry (newEvents st st')) \<le> 1"
proof -
  let ?rq0 = "apiRequest m url o' (requestHeaders (requestToken o'))"
  let ?st1 = "st\<lparr>world := w0, events := events st @ [FirstAttempt ?rq0]\<rparr>"
  have c1: "httpCall env FirstAttempt ?rq0 st = (r0, ?st1)"
    using first by (rule httpCall_run)
  show ?thesis
  proof (cases r0)
    case (Inr resp)
    with run c1 have "res = Inr resp" "st' = ?st1" by (simp_all add: spotifyRequest_def)
    with Inr show ?thesis by (simp add: newEvents_def)
  next
    case (Inl err)
    show ?thesis
    proof (cases "responseStatus err = Some 401")
      case False
      with run c1 Inl have "res = Inl err" "st' = ?st1" by (simp_all add: spotifyRequest_def)
      with Inl False show ?thesis by (simp add: newEvents_def)
    next
      case True
      let ?rrq = "refreshRequest env (toKey (o_refreshToken o'))"
      from run c1 Inl True rt uid have rr: "refreshAndRetry env m url o' ?st1 = (res, st')"
        by (simp add: spotifyRequest_def)
      let ?st2 = "st\<lparr>world := w1, events := events st @ [FirstAttempt ?rq0, RefreshExchange ?rrq]\<rparr>"
      have c2: "httpCall env RefreshExchange ?rrq ?st1 = (r1, ?st2)"
        using refresh by (simp add: httpCall_def)
      have failed: "res = Inl e \<Longrightarrow> st' = ?st2 \<Longrightarrow>
          length (filter isFirstAttempt (newEvents st st')) = 1 \<and>
          length (filter isRefreshExchange (newEvents st st')) = 1 \<and>
          length (filter isRetry (newEvents st st')) \<le> 1" for e
        by (simp add: newEvents_def)
      show ?thesis
      proof (cases r1)
        case r1: (Inl refreshErr)
        with rr c2 have fin: "res = Inl refreshErr" "st' = ?st2" by (simp_all add: refreshAndRetry_def)
        from failed [OF fin] fin Inl True r1 show ?thesis by simp
      next
        case r1: (Inr refreshResp)
        show ?thesis
        proof (cases "truthy (rs_access_token refreshResp)")
          case False
          with rr c2 r1 have fin: "res = Inl (PlainError ''No new access token returned.'')" "st' = ?st2"
            by (simp_all add: refreshAndRetry_def)
          from failed [OF fin] fin Inl True r1 False show ?thesis by simp
        next
          case tokOk: True
          let ?t = "toKey (rs_access_token refreshResp)"
          let ?u = "toKey (o_userId o')"
          obtain d w2 where db2: "db env (FindByIdAndUpdate ?u ?t) w1 = (d, w2)"
            by (cases "db env (FindByIdAndUpdate ?u ?t) w1")
          show ?thesis
          proof (cases d)
            case (Some msg)
            let ?st2' = "st\<lparr>world := w2, events := events st @ [FirstAttempt ?rq0, RefreshExchange ?rrq]\<rparr>"
            from Some db2 have "findByIdAndUpdate env ?u ?t ?st2 = (Inl (DbError msg), ?st2')"
              by (simp add: findByIdAndUpdate_def)
            with rr c2 r1 tokOk have fin: "res = Inl (DbError msg)" "st' = ?st2'"
              by (simp_all add: refreshAndRetry_def)
            with Inl True r1 tokOk db2 Some show ?thesis by (simp add: newEvents_def)
          next
            case None
            let ?st3 = "st\<lparr>world := w2, users := setSpotifyAccessToken (users st) ?u ?t,
                             events := events st @ [FirstAttempt ?rq0, RefreshExchange ?rrq, PersistToken ?u ?t]\<rparr>"
            from None db2 have c3: "findByIdAndUpdate env ?u ?t ?st2 = (Inr (), ?st3)"
              by (simp add: findByIdAndUpdate_def)
            let ?rq3 = "apiRequest m url o' (Some (Bearer ?t))"
            obtain r3 w3 where ax3: "axios env ?rq3 w2 = (r3, w3)" by (cases "axios env ?rq3 w2")
            let ?st4 = "st\<lparr>world := w3, users := setSpotifyAccessToken (users st) ?u ?t,
                             events := events st @ [FirstAttempt ?rq0, RefreshExchange ?rrq, PersistToken ?u ?t, Retry ?rq3]\<rparr>"
            have c4: "httpCall env Retry ?rq3 ?st3 = (r3, ?st4)"
              using ax3 by (simp add: httpCall_def)
            from rr c2 r1 tokOk c3 c4 have fin: "res = r3" "st' = ?st4"
              by (simp_all add: refreshAndRetry_def)
            with Inl True r1 tokOk db2 None ax3 show ?thesis by (simp add: newEvents_def)
          qed
        qed
      qed
    qed
  qed
qed

theorem spotifyRequest_refresh_once_witness:
  "truthy (o_refreshToken aliceOpts) \<and> truthy (o_userId aliceOpts) \<and>
   spotifyRequest expiringEnv GET ''https://api.spotify.com/v1/search'' aliceOpts oneUser =
     (Inr (emptyResponse\<lparr>rs_id := Some ''pl1'', rs_name := Some ''chill playlist''\<rparr>),
      oneUser\<lparr>users := [''u1'' \<mapsto> alice\<lparr>u_spotify_accessToken := Some ''fresh''\<rparr>],
              events :=
                [FirstAttempt (apiRequest GET ''https://api.spotify.com/v1/search'' aliceOpts (Some (Bearer ''stale''))),
                 RefreshExchange (refreshRequest expiringEnv ''refresh-1''),
                 PersistToken ''u1'' ''fresh'',
                 Retry (apiRequest GET ''https://api.spotify.com/v1/search'' aliceOpts (Some (Bearer ''fresh'')))]\<rparr>)"
proof -
  let ?url = "''https://api.spotify.com/v1/search''"
  have rt: "truthy (o_refreshToken aliceOpts)" and uid: "truthy (o_userId aliceOpts)"
    by (simp_all add: aliceOpts_def)
  have first: "axios expiringEnv (apiRequest GET ?url aliceOpts (requestHeaders (requestToken aliceOpts))) (world oneUser)
      = (Inl (AxiosError (Some 401) ''Request failed with status code 401''), ())"
    by (simp add: expiringEnv_def expiringProvider_def aliceOpts_def apiRequest_def requestHeaders_def
        requestToken_def tokenUrl_def)
  have refresh: "axios expiringEnv (refreshRequest expiringEnv (toKey (o_refreshToken aliceOpts))) ()
      = (Inr (emptyResponse\<lparr>rs_access_token := Some ''fresh''\<rparr>), ())"
    by (simp add: expiringEnv_def expiringProvider_def refreshRequest_def tokenUrl_def)
  obtain res st' where run: "spotifyRequest expiringEnv GET ?url aliceOpts oneUser = (res, st')"
    by (cases "spotifyRequest expiringEnv GET ?url aliceOpts oneUser")
  from spotifyRequest_refresh_once [OF rt uid first refresh run]
  have "res = Inr (emptyResponse\<lparr>rs_id := Some ''pl1'', rs_name := Some ''chill playlist''\<rparr>) \<and>
        st' = oneUser\<lparr>users := [''u1'' \<mapsto> alice\<lparr>u_spotify_accessToken := Some ''fresh''\<rparr>],
              events :=
                [FirstAttempt (apiRequest GET ?url aliceOpts (Some (Bearer ''stale''))),
                 RefreshExchange (refreshRequest expiringEnv ''refresh-1''),
                 PersistToken ''u1'' ''fresh'',
                 Retry (apiRequest GET ?url aliceOpts (Some (Bearer ''fresh'')))]\<rparr>"
    by (simp add: expiringEnv_def expiringProvider_def aliceOpts_def apiRequest_def requestHeaders_def
        requestToken_def tokenUrl_def emptyResponse_def setSpotifyAccessToken_def oneUser_def refreshRequest_def)
  with run rt uid show ?thesis
    by simp
qed
section \<open>What a provider call leaves alone\<close>

lemma storedDrafts_users: "users st' = users st \<Longrightarrow> storedDrafts st' = storedDrafts st"
  by (simp add: storedDrafts_def fun_eq_iff)

lemma storedDrafts_setToken:
  "users st' = setSpotifyAccessToken (users st) uid t \<Longrightarrow> storedDrafts st' = storedDrafts st"
proof -
  assume a: "users st' = setSpotifyAccessToken (users st) uid t"
  have "map_option u_spotify_playlists (setSpotifyAccessToken (users st) uid t x) =
        map_option u_spotify_playlists (users st x)" for x
    by (cases "users st uid") (simp_all add: setSpotifyAccessToken_def)
  with a show ?thesis by (simp add: storedDrafts_def fun_eq_iff)
qed

lemma quiet_refl: "quiet st st"
  by (simp add: quiet_def)

lemma quiet_trans: "quiet st st1 \<Longrightarrow> quiet st1 st2 \<Longrightarrow> quiet st st2"
  unfolding quiet_def by (elim conjE exE) (rule conjI, simp, rule conjI, simp, rule_tac x="rest @ resta" in exI, simp)

lemma quiet_same:
  "users st' = users st \<Longrightarrow> playlists st' = playlists st \<Longrightarrow> events st' = events st \<Longrightarrow> quiet st st'"
  using storedDrafts_users [of st' st] by (simp add: quiet_def)

lemma quiet_world: "quiet st (st\<lparr>world := w\<rparr>)"
  by (rule quiet_same) simp_all

lemma httpCall_quiet:
  assumes "httpCall env tag rq st = (r, st')" and "\<not> isFirstAttempt (tag rq)"
  shows "quiet st st'"
proof -
  obtain r' w where "axios env rq (world st) = (r', w)" by (cases "axios env rq (world st)")
  with assms(1) have st': "st' = st\<lparr>world := w, events := events st @ [tag rq]\<rparr>"
    by (simp add: httpCall_def)
  have "storedDrafts st' = storedDrafts st" by (rule storedDrafts_users) (simp add: st')
  moreover have "events st' = events st @ [tag rq]" by (simp add: st')
  moreover have "playlists st' = playlists st" by (simp add: st')
  ultimately show ?thesis using assms(2) unfolding quiet_def by simp
qed

lemma findByIdAndUpdate_quiet:
  assumes "findByIdAndUpdate env uid t st = (r, st')"
  shows "quiet st st'"
proof -
  obtain d w where db1: "db env (FindByIdAndUpdate uid t) (world st) = (d, w)"
    by (cases "db env (FindByIdAndUpdate uid t) (world st)")
  show ?thesis
  proof (cases d)
    case (Some msg)
    with assms db1 have "st' = st\<lparr>world := w\<rparr>" by (simp add: findByIdAndUpdate_def)
    then show ?thesis by (simp add: quiet_world)
  next
    case None
    with assms db1 have st': "st' = st\<lparr>world := w, users := setSpotifyAccessToken (users st) uid t,
        events := events st @ [PersistToken uid t]\<rparr>"
      by (simp add: findByIdAndUpdate_def)
    have "storedDrafts st' = storedDrafts st" by (rule storedDrafts_setToken [of _ _ uid t]) (simp add: st')
    moreover have "events st' = events st @ [PersistToken uid t]" by (simp add: st')
    moreover have "playlists st' = playlists st" by (simp add: st')
    ultimately show ?thesis unfolding quiet_def by simp
  qed
qed

lemma refreshAndRetry_quiet:
  assumes "refreshAndRetry env m url o' st = (res, st')"
  shows "quiet st st'"
proof -
  let ?rrq = "refreshRequest env (toKey (o_refreshToken o'))"
  obtain r1 st1 where c1: "httpCall env RefreshExchange ?rrq st = (r1, st1)"
    by (cases "httpCall env RefreshExchange ?rrq st")
  have q1: "quiet st st1" by (rule httpCall_quiet [OF c1]) simp
  show ?thesis
  proof (cases r1)
    case (Inl e)
    with assms c1 have "st' = st1" by (simp add: refreshAndRetry_def)
    with q1 show ?thesis by simp
  next
    case (Inr resp)
    show ?thesis
    proof (cases "truthy (rs_access_token resp)")
      case False
      with assms c1 Inr have "st' = st1" by (simp add: refreshAndRetry_def)
      with q1 show ?thesis by simp
    next
      case True
      let ?t = "toKey (rs_access_token resp)"
      obtain r2 st2 where c2: "findByIdAndUpdate env (toKey (o_userId o')) ?t st1 = (r2, st2)"
        by (cases "findByIdAndUpdate env (toKey (o_userId o')) ?t st1")
      have q2: "quiet st st2" by (rule quiet_trans [OF q1 findByIdAndUpdate_quiet [OF c2]])
      show ?thesis
      proof (cases r2)
        case (Inl e)
        with assms c1 c2 Inr True have "st' = st2" by (simp add: refreshAndRetry_def)
        with q2 show ?thesis by simp
      next
        case r2ok: (Inr u)
        let ?rq3 = "apiRequest m url o' (Some (Bearer ?t))"
        obtain r3 st3 where c3: "httpCall env Retry ?rq3 st2 = (r3, st3)"
          by (cases "httpCall env Retry ?rq3 st2")
        have q3: "quiet st2 st3" by (rule httpCall_quiet [OF c3]) simp
        from assms c1 c2 c3 Inr True r2ok have "st' = st3" by (simp add: refreshAndRetry_def)
        with quiet_trans [OF q2 q3] show ?thesis by simp
      qed
    qed
  qed
qed

text \<open>A call of spotifyRequest: its first attempt, then a quiet stretch.\<close>

lemma spotifyRequest_frame:
  assumes "spotifyRequest env m url o' st = (res, st')"
  shows "quiet (st\<lparr>events := events st @ [FirstAttempt (apiRequest m url o' (requestHeaders (requestToken o')))]\<rparr>) st'"
proof -
  let ?rq0 = "apiRequest m url o' (requestHeaders (requestToken o'))"
  let ?sta = "st\<lparr>events := events st @ [FirstAttempt ?rq0]\<rparr>"
  obtain r0 w0 where ax: "axios env ?rq0 (world st) = (r0, w0)" by (cases "axios env ?rq0 (world st)")
  let ?st0 = "st\<lparr>world := w0, events := events st @ [FirstAttempt ?rq0]\<rparr>"
  have c0: "httpCall env FirstAttempt ?rq0 st = (r0, ?st0)" using ax by (simp add: httpCall_def)
  have q0: "quiet ?sta ?st0" by (rule quiet_same) simp_all
  show ?thesis
  proof (cases "\<exists>err. r0 = Inl err \<and> responseStatus err = Some 401 \<and> truthy (o_refreshToken o') \<and> truthy (o_userId o')")
    case False
    with assms c0 have "st' = ?st0"
      by (cases r0) (auto simp add: spotifyRequest_def split: if_splits)
    with q0 show ?thesis by simp
  next
    case True
    with assms c0 have rr: "refreshAndRetry env m url o' ?st0 = (res, st')"
      by (auto simp add: spotifyRequest_def)
    from quiet_trans [OF q0 refreshAndRetry_quiet [OF rr]] show ?thesis .
  qed
qed

lemma spotifyRequest_no_refresh:
  assumes "spotifyRequest env m url o' st = (res, st')"
    and "\<not> (truthy (o_refreshToken o') \<and> truthy (o_userId o'))"
  shows "users st' = users st"
proof -
  let ?rq0 = "apiRequest m url o' (requestHeaders (requestToken o'))"
  obtain r0 w0 where ax: "axios env ?rq0 (world st) = (r0, w0)" by (cases "axios env ?rq0 (world st)")
  let ?st0 = "st\<lparr>world := w0, events := events st @ [FirstAttempt ?rq0]\<rparr>"
  have c0: "httpCall env FirstAttempt ?rq0 st = (r0, ?st0)" using ax by (simp add: httpCall_def)
  with assms have "st' = ?st0"
    by (cases r0) (auto simp add: spotifyRequest_def split: if_splits)
  then show ?thesis by simp
qed

section \<open>The add-tracks loop\<close>




lemma specBatches_done: "\<not> i < length uris \<Longrightarrow> specBatches (drop i uris) = []"
  by simp


lemma spotifyRequest_effects:
  assumes "spotifyRequest env m url o' st = (res, st')"
  shows "playlists st' = playlists st \<and> storedDrafts st' = storedDrafts st \<and>
     (\<exists>rest. events st' = events st @ FirstAttempt (apiRequest m url o' (requestHeaders (requestToken o'))) # rest \<and>
        list_all (\<lambda>e. \<not> isFirstAttempt e) rest)"
proof -
  let ?sta = "st\<lparr>events := events st @ [FirstAttempt (apiRequest m url o' (requestHeaders (requestToken o')))]\<rparr>"
  have "storedDrafts ?sta = storedDrafts st" by (rule storedDrafts_users) simp
  moreover have "playlists ?sta = playlists st" by simp
  moreover have "events ?sta = events st @ [FirstAttempt (apiRequest m url o' (requestHeaders (requestToken o')))]"
    by simp
  moreover note spotifyRequest_frame [OF assms, unfolded quiet_def]
  ultimately show ?thesis by (elim conjE exE) simp
qed



section \<open>The database operations\<close>


lemma saveUser_cases:
  assumes "saveUser env uid change st = (r, st')"
  shows "playlists st' = playlists st \<and> events st' = events st \<and>
     ((\<exists>e. r = Inl e) \<and> users st' = users st \<or>
      r = Inr () \<and> (\<exists>x. users st uid = Some x \<and> users st' = (users st)(uid \<mapsto> change x)))"
proof -
  obtain d w where "db env (SaveUser uid) (world st) = (d, w)"
    by (cases "db env (SaveUser uid) (world st)")
  with assms show ?thesis by (cases d; cases "users st uid") (auto simp: saveUser_def)
qed

lemma findById_cases:
  assumes "findById env userId st = (r, st')"
  shows "users st' = users st \<and> playlists st' = playlists st \<and> events st' = events st \<and>
     ((\<exists>e. r = Inl e) \<or> r = Inr (case userId of None \<Rightarrow> None | Some uid \<Rightarrow> users st uid))"
proof -
  obtain d w where "db env (FindById userId) (world st) = (d, w)"
    by (cases "db env (FindById userId) (world st)")
  with assms show ?thesis by (cases d) (auto simp: findById_def)
qed

lemma dbWorks_findById:
  "dbWorks env \<Longrightarrow> findById env userId st = (r, st') \<Longrightarrow>
     r = Inr (case userId of None \<Rightarrow> None | Some uid \<Rightarrow> users st uid)"
proof -
  assume w: "dbWorks env" and run: "findById env userId st = (r, st')"
  obtain d w' where d: "db env (FindById userId) (world st) = (d, w')"
    by (cases "db env (FindById userId) (world st)")
  from w have "fst (db env (FindById userId) (world st)) = None" by (simp add: dbWorks_def)
  with d have "d = None" by simp
  with run d show ?thesis by (auto simp: findById_def)
qed

lemma dbWorks_saveUser:
  "dbWorks env \<Longrightarrow> saveUser env uid change st = (r, st') \<Longrightarrow> users st uid = Some x \<Longrightarrow> r = Inr ()"
proof -
  assume w: "dbWorks env" and run: "saveUser env uid change st = (r, st')" and x: "users st uid = Some x"
  obtain d w' where d: "db env (SaveUser uid) (world st) = (d, w')"
    by (cases "db env (SaveUser uid) (world st)")
  from w have "fst (db env (SaveUser uid) (world st)) = None" by (simp add: dbWorks_def)
  with d have "d = None" by simp
  with run d x show ?thesis by (auto simp: saveUser_def)
qed



section \<open>Publishing a draft\<close>


section \<open>Batches of one hundred\<close>

lemma newEvents_append: "events st' = events st @ xs \<Longrightarrow> newEvents st st' = xs"
  by (simp add: newEvents_def)






section \<open>Runs in which every call is accepted, and runs with an expired token\<close>










section \<open>pushDraftToSpotify: batches, and the draft removed last\<close>








section \<open>Seed genres\<close>

lemmas evalGenre = seedGenres_def normalizeGenre_def genreLookup_def genreMap_def asciiLowerCase_def
  lowerChar_def upperLetters_def lowerLetters_def objectPrototypeKeys_def specNormalizeGenre_def

lemma seedGenres_length: "length (seedGenres lc genres) \<le> 2"
  by (simp add: seedGenres_def)

lemma normalizeGenre_own:
  "lc g \<notin> set objectPrototypeKeys \<Longrightarrow> normalizeGenre lc g = Genre (specNormalizeGenre lc g)"
  by (auto simp: normalizeGenre_def genreLookup_def specNormalizeGenre_def genreMap_def split: option.splits if_splits)

text \<open>
  Claim C7, at the genre tag \<open>constructor\<close>: the lookup \<open>genreMap[g.toLowerCase()]\<close>
  finds the \<open>constructor\<close> member every object literal inherits, which is truthy, so
  the seed genre is that function and not the lowercased tag the specification's
  normalisation yields for a tag outside the table. The tag is ASCII, so
  \<open>asciiLowerCase\<close> is what \<open>toLowerCase\<close> does to it.
\<close>

theorem seedGenres_inherited_member:
  "seedGenres asciiLowerCase [''constructor''] = [PrototypeMember ''constructor''] \<and>
   map (specNormalizeGenre asciiLowerCase) [''constructor''] = [''constructor'']"
  by (simp add: evalGenre)

section \<open>The attribute filter\<close>

lemma inRange_iff:
  "inRange f (attr, mn, mx) \<longleftrightarrow> (\<exists>v. f attr = Some (JNumber v) \<and> mn \<le> v \<and> v \<le> mx)"
proof (cases "f attr")
  case None
  then show ?thesis by (simp add: inRange_def)
next
  case (Some y)
  then show ?thesis by (cases y) (simp_all add: inRange_def)
qed

lemma list_all_inRange:
  "list_all (inRange f) tgt \<longleftrightarrow>
     (\<forall>(attr, mn, mx) \<in> set tgt. \<exists>v. f attr = Some (JNumber v) \<and> mn \<le> v \<and> v \<le> mx)"
  unfolding list_all_iff using inRange_iff [of f] by fastforce

text \<open>
  Claim C1 as stated fails: with the constraint energy in [0, 0.5] configured and no
  attribute data fetched at all, a track passes the filter of the code, while the
  claim has it fail.
\<close>

theorem missing_features_pass_counterexample:
  "\<not> (passesFilter [(''energy'', 0, 1/2)] Map.empty trackA \<longleftrightarrow>
       specPassesFilter [(''energy'', 0, 1/2)] Map.empty trackA)"
  by (simp add: passesFilter_def specPassesFilter_def)

text \<open>
  Claim C1, amended. A candidate passes the filter exactly when its attribute data is
  missing from the fetched attribute map, or no constraint is configured, or every
  configured attribute of its fetched data is a number within its [min, max] range,
  bounds included. So a track without attribute data always passes.
\<close>

theorem filtered_characterisation:
  "t \<in> set (filtered tgt featuresMap candidateTracks) \<longleftrightarrow>
     t \<in> set candidateTracks \<and>
     (featuresMap (toKey (rt_id t)) = None \<or> tgt = [] \<or>
      (\<exists>f. featuresMap (toKey (rt_id t)) = Some f \<and>
           (\<forall>(attr, mn, mx) \<in> set tgt. \<exists>v. f attr = Some (JNumber v) \<and> mn \<le> v \<and> v \<le> mx)))"
  by (auto simp: filtered_def passesFilter_def list_all_inRange split: option.splits)

theorem filtered_characterisation_witness:
  "trackB \<notin> set (filtered [(''energy'', 0, 1/2)] [''b'' \<mapsto> hotFeatures] [trackA, trackB]) \<and>
   trackA \<in> set (filtered [(''energy'', 0, 1/2)] [''b'' \<mapsto> hotFeatures] [trackA, trackB])"
proof -
  have b: "trackB \<notin> set (filtered [(''energy'', 0, 1/2)] [''b'' \<mapsto> hotFeatures] [trackA, trackB])"
    unfolding filtered_characterisation [of trackB]
    by (simp add: trackB_def hotFeatures_def)
  have a: "trackA \<in> set (filtered [(''energy'', 0, 1/2)] [''b'' \<mapsto> hotFeatures] [trackA, trackB])"
    unfolding filtered_characterisation [of trackA]
    by (simp add: trackA_def)
  from a b show ?thesis by simp
qed

section \<open>logout\<close>

lemma respond_status: "rp_status (respond code b) = code"
  by (simp add: respond_def)

lemma logout_run:
  assumes run: "logout env userId st = (resp, st')"
  shows "(rp_status resp \<noteq> 200 \<and> users st' = users st \<and> playlists st' = playlists st) \<or>
         (rp_status resp = 200 \<and> rp_clearCookie resp \<and> playlists st' = playlists st \<and>
          (\<exists>uid u. userId = Some uid \<and> uid \<noteq> [] \<and> users st uid = Some u \<and>
             users st' = (users st)(uid \<mapsto> u\<lparr>u_accessToken := Some '''', u_refreshToken := Some ''''\<rparr>)))"
proof (cases "truthy userId")
  case False
  with run show ?thesis by (auto simp add: logout_def respond_def)
next
  case True
  then obtain uid where uid: "userId = Some uid" "uid \<noteq> []" by (cases userId) simp_all
  obtain r0 st1 where c0: "findById env userId st = (r0, st1)" by (cases "findById env userId st")
  from findById_cases [OF c0]
  have u0: "users st1 = users st" and p0: "playlists st1 = playlists st"
    and k0: "(\<exists>e. r0 = Inl e) \<or> r0 = Inr (case userId of None \<Rightarrow> None | Some uid \<Rightarrow> users st uid)"
    by simp_all
  show ?thesis
  proof (cases r0)
    case (Inl err)
    with run c0 True have "resp = respond 500 (ErrorBody ''Failed to logout user'')" "st' = st1"
      by (simp_all add: logout_def)
    with u0 p0 show ?thesis by (simp add: respond_def)
  next
    case (Inr found)
    show ?thesis
    proof (cases found)
      case None
      with run c0 True Inr have "resp = respond 404 (ErrorBody ''User not found'')" "st' = st1"
        by (simp_all add: logout_def)
      with u0 p0 show ?thesis by (simp add: respond_def)
    next
      case (Some user)
      let ?change = "\<lambda>u. u\<lparr>u_accessToken := Some '''', u_refreshToken := Some ''''\<rparr>"
      obtain r1 st2 where c1: "saveUser env (toKey userId) ?change st1 = (r1, st2)"
        by (cases "saveUser env (toKey userId) ?change st1")
      from saveUser_cases [OF c1]
      have p1: "playlists st2 = playlists st1"
        and k1: "(\<exists>e. r1 = Inl e) \<and> users st2 = users st1 \<or>
            r1 = Inr () \<and> (\<exists>x. users st1 (toKey userId) = Some x \<and> users st2 = (users st1)(toKey userId \<mapsto> ?change x))"
        by simp_all
      show ?thesis
      proof (cases r1)
        case (Inl err)
        with run c0 c1 True Inr Some have "resp = respond 500 (ErrorBody ''Failed to logout user'')" "st' = st2"
          by (simp_all add: logout_def)
        with Inl k1 u0 p0 p1 show ?thesis by (auto simp: respond_def)
      next
        case saved: (Inr u)
        with run c0 c1 True Inr Some
        have resp: "resp = \<lparr>rp_status = 200, rp_body = MessageBody ''Logged out successfully'', rp_clearCookie = True\<rparr>"
          and st': "st' = st2"
          by (simp_all add: logout_def)
        from saved k1 uid u0 obtain x where "users st uid = Some x"
          "users st2 = (users st)(uid \<mapsto> ?change x)" by auto
        with resp st' uid p0 p1 show ?thesis by simp
      qed
    qed
  qed
qed

lemmas logoutEval = logout_def findById_def saveUser_def respond_def

text \<open>
  Claim C6 as stated fails: after a successful logout of a user with a stored provider
  credential, both tokens of the credential are still there.
\<close>

theorem logout_keeps_credential_counterexample:
  "rp_status (fst (logout expiringEnv (Some ''u1'') oneUser)) = 200 \<and>
   (case users (snd (logout expiringEnv (Some ''u1'') oneUser)) ''u1'' of
      None \<Rightarrow> False
    | Some u \<Rightarrow> \<not> credentialCleared u \<and> u_spotify_accessToken u = Some ''stale'' \<and>
                u_spotify_refreshToken u = Some ''refresh-1'')"
  by (simp add: logoutEval expiringEnv_def oneUser_def alice_def credentialCleared_def)

text \<open>
  Claim C6, amended. A successful logout (status 200) sets the application's own
  session tokens of the user, \<open>accessToken\<close> and \<open>refreshToken\<close>, to the empty string
  and clears the session cookie; the stored provider Credential of the user
  (\<open>spotify.accessToken\<close>, \<open>spotify.refreshToken\<close>), the drafts, the published playlists
  and every other user are left as they were.
\<close>

theorem logout_clears_session_tokens:
  assumes run: "logout env userId st = (resp, st')" and ok: "rp_status resp = 200"
  shows "\<exists>uid u. userId = Some uid \<and> users st uid = Some u \<and>
           users st' = (users st)(uid \<mapsto> u\<lparr>u_accessToken := Some '''', u_refreshToken := Some ''''\<rparr>) \<and>
           map_option u_spotify_accessToken (users st' uid) = Some (u_spotify_accessToken u) \<and>
           map_option u_spotify_refreshToken (users st' uid) = Some (u_spotify_refreshToken u) \<and>
           storedDrafts st' = storedDrafts st \<and> playlists st' = playlists st \<and> rp_clearCookie resp"
proof -
  from logout_run [OF run] ok obtain uid u where uid: "userId = Some uid" and u: "users st uid = Some u"
    and st': "users st' = (users st)(uid \<mapsto> u\<lparr>u_accessToken := Some '''', u_refreshToken := Some ''''\<rparr>)"
    and rest: "rp_clearCookie resp" "playlists st' = playlists st"
    by auto
  have "storedDrafts st' = storedDrafts st"
    using u by (auto simp add: storedDrafts_def fun_eq_iff st')
  with uid u st' rest show ?thesis by simp
qed

theorem logout_clears_session_tokens_witness:
  "rp_status (fst (logout expiringEnv (Some ''u1'') oneUser)) = 200 \<and>
   users (snd (logout expiringEnv (Some ''u1'') oneUser)) =
     [''u1'' \<mapsto> alice\<lparr>u_accessToken := Some '''', u_refreshToken := Some ''''\<rparr>]"
proof -
  obtain resp st' where run: "logout expiringEnv (Some ''u1'') oneUser = (resp, st')"
    by (cases "logout expiringEnv (Some ''u1'') oneUser")
  have ok: "rp_status resp = 200"
    using run by (auto simp add: logoutEval expiringEnv_def oneUser_def)
  from logout_clears_session_tokens [OF run ok]
  have "users st' = [''u1'' \<mapsto> alice\<lparr>u_accessToken := Some '''', u_refreshToken := Some ''''\<rparr>]"
    by (auto simp: oneUser_def)
  with ok run show ?thesis by simp
qed

section \<open>deleteTrackFromDraft\<close>

lemmas deleteEval = deleteTrackFromDraft_def findById_def saveUser_def respond_def Let_def

text \<open>
  Claim C10. For an authenticated user with a stored document: when the draft list holds
  a draft with the given id, the first such draft gets its track list replaced by the
  tracks whose id differs from the given track id, in their old order; its other fields,
  the other drafts, the other users and the published playlists stay as they were, and
  the answer is 200 with the changed draft. When no draft has the id, the answer is 404
  and nothing changes. The only other outcome is the 500 answer, with nothing changed,
  which takes a database operation that fails.
\<close>

theorem deleteTrackFromDraft_frame:
  assumes run: "deleteTrackFromDraft env userId draftId trackId st = (resp, st')"
    and uid: "userId = Some uid" and auth: "uid \<noteq> []" and user: "users st uid = Some user"
  shows "(case findIndex (\<lambda>p. Some (d_id p) = draftId) (u_spotify_playlists user) of
            None \<Rightarrow>
              users st' = users st \<and>
              (resp = respond 404 (ErrorBody ''Draft not found.'') \<or>
               resp = respond 500 (ErrorBody ''Failed to delete track.''))
          | Some i \<Rightarrow>
              (resp = respond 200 (DraftBody ''Track deleted.''
                        ((u_spotify_playlists user ! i)
                           \<lparr>d_tracks := filter (\<lambda>t. tk_id t \<noteq> trackId) (d_tracks (u_spotify_playlists user ! i))\<rparr>)) \<and>
               users st' = (users st)(uid \<mapsto> user\<lparr>u_spotify_playlists :=
                  (u_spotify_playlists user)[i := (u_spotify_playlists user ! i)
                     \<lparr>d_tracks := filter (\<lambda>t. tk_id t \<noteq> trackId) (d_tracks (u_spotify_playlists user ! i))\<rparr>]\<rparr>)) \<or>
              (resp = respond 500 (ErrorBody ''Failed to delete track.'') \<and> users st' = users st)) \<and>
         playlists st' = playlists st \<and>
         (dbWorks env \<longrightarrow> rp_status resp \<noteq> 500)"
proof -
  have t: "truthy userId" using uid auth by simp
  obtain r0 st1 where c0: "findById env userId st = (r0, st1)" by (cases "findById env userId st")
  from findById_cases [OF c0] uid user
  have u0: "users st1 = users st" and p0: "playlists st1 = playlists st"
    and k0: "(\<exists>e. r0 = Inl e) \<or> r0 = Inr (Some user)"
    by simp_all
  show ?thesis
  proof (cases r0)
    case (Inl err)
    with run c0 t have r: "resp = respond 500 (ErrorBody ''Failed to delete track.'')" and s: "st' = st1"
      by (simp_all add: deleteTrackFromDraft_def)
    have "\<not> dbWorks env" using dbWorks_findById [OF _ c0] Inl by auto
    with r s u0 p0 show ?thesis by (simp split: option.split)
  next
    case (Inr found)
    with k0 have found: "r0 = Inr (Some user)" by simp
    show ?thesis
    proof (cases "findIndex (\<lambda>p. Some (d_id p) = draftId) (u_spotify_playlists user)")
      case None
      with run c0 t found have "resp = respond 404 (ErrorBody ''Draft not found.'')" "st' = st1"
        by (simp_all add: deleteTrackFromDraft_def)
      with None u0 p0 show ?thesis by (simp add: respond_def)
    next
      case (Some i)
      let ?d = "(u_spotify_playlists user ! i)
                  \<lparr>d_tracks := filter (\<lambda>t. tk_id t \<noteq> trackId) (d_tracks (u_spotify_playlists user ! i))\<rparr>"
      let ?change = "\<lambda>u. u\<lparr>u_spotify_playlists := (u_spotify_playlists user)[i := ?d]\<rparr>"
      obtain r1 st2 where c1: "saveUser env (toKey userId) ?change st1 = (r1, st2)"
        by (cases "saveUser env (toKey userId) ?change st1")
      from saveUser_cases [OF c1] uid u0 user
      have p1: "playlists st2 = playlists st1"
        and k1: "(\<exists>e. r1 = Inl e) \<and> users st2 = users st \<or>
            r1 = Inr () \<and> users st2 = (users st)(uid \<mapsto> ?change user)"
        by auto
      show ?thesis
      proof (cases r1)
        case (Inl err)
        with run c0 c1 t found Some have r: "resp = respond 500 (ErrorBody ''Failed to delete track.'')" and s: "st' = st2"
          by (simp_all add: deleteTrackFromDraft_def Let_def)
        have "\<not> dbWorks env" using dbWorks_saveUser [OF _ c1, of user] Inl uid u0 user by auto
        with r s Inl k1 p0 p1 Some show ?thesis by simp
      next
        case saved: (Inr u)
        with run c0 c1 t found Some have r: "resp = respond 200 (DraftBody ''Track deleted.'' ?d)" and s: "st' = st2"
          by (simp_all add: deleteTrackFromDraft_def Let_def)
        with saved k1 p0 p1 Some show ?thesis by (simp add: respond_def)
      qed
    qed
  qed
qed

theorem deleteTrackFromDraft_frame_witness:
  "fst (deleteTrackFromDraft expiringEnv (Some ''u1'') (Some ''draft_1'') (Some ''a'') oneUser) =
     respond 200 (DraftBody ''Track deleted.'' (draftOne\<lparr>d_tracks := [finalTrack trackB]\<rparr>)) \<and>
   users (snd (deleteTrackFromDraft expiringEnv (Some ''u1'') (Some ''draft_1'') (Some ''a'') oneUser)) =
     [''u1'' \<mapsto> alice\<lparr>u_spotify_playlists := [draftOne\<lparr>d_tracks := [finalTrack trackB]\<rparr>, draftTwo]\<rparr>]"
proof -
  obtain resp st' where run: "deleteTrackFromDraft expiringEnv (Some ''u1'') (Some ''draft_1'') (Some ''a'') oneUser = (resp, st')"
    by (cases "deleteTrackFromDraft expiringEnv (Some ''u1'') (Some ''draft_1'') (Some ''a'') oneUser")
  have user: "users oneUser ''u1'' = Some alice" by (simp add: oneUser_def)
  have auth: "''u1'' \<noteq> []" by simp
  have works: "dbWorks expiringEnv" by (simp add: dbWorks_def expiringEnv_def)
  have found: "findIndex (\<lambda>p. Some (d_id p) = Some ''draft_1'') (u_spotify_playlists alice) = Some 0"
    by (simp add: alice_def draftOne_def)
  have d: "(u_spotify_playlists alice ! 0)\<lparr>d_tracks := filter (\<lambda>t. tk_id t \<noteq> Some ''a'') (d_tracks (u_spotify_playlists alice ! 0))\<rparr>
      = draftOne\<lparr>d_tracks := [finalTrack trackB]\<rparr>"
    by (simp add: alice_def draftOne_def finalTrack_def trackA_def trackB_def)
  have l: "(u_spotify_playlists alice)[0 := draftOne\<lparr>d_tracks := [finalTrack trackB]\<rparr>] =
      [draftOne\<lparr>d_tracks := [finalTrack trackB]\<rparr>, draftTwo]"
    by (simp add: alice_def)
  from deleteTrackFromDraft_frame [OF run refl auth user] works
  have "resp = respond 200 (DraftBody ''Track deleted.'' (draftOne\<lparr>d_tracks := [finalTrack trackB]\<rparr>)) \<and>
        users st' = [''u1'' \<mapsto> alice\<lparr>u_spotify_playlists := [draftOne\<lparr>d_tracks := [finalTrack trackB]\<rparr>, draftTwo]\<rparr>]"
    unfolding found option.case d l by (auto simp: respond_def oneUser_def)
  with run show ?thesis by simp
qed

section \<open>Assembling the draft\<close>

lemma fetchFeaturesMap_frame:
  assumes "fetchFeaturesMap env o' cands st = (fm, st1)"
  shows "playlists st1 = playlists st \<and> storedDrafts st1 = storedDrafts st \<and>
         (\<not> (truthy (o_refreshToken o') \<and> truthy (o_userId o')) \<longrightarrow> users st1 = users st)"
proof -
  let ?o = "o'\<lparr>o_params := [(''ids'', joinStrings '','' (poolIds cands))]\<rparr>"
  obtain r st2 where c: "spotifyRequest env GET ''https://api.spotify.com/v1/audio-features'' ?o st = (r, st2)"
    by (cases "spotifyRequest env GET ''https://api.spotify.com/v1/audio-features'' ?o st")
  with assms have "st1 = st2" by (cases r) (simp_all add: fetchFeaturesMap_def)
  with spotifyRequest_effects [OF c] spotifyRequest_no_refresh [OF c] show ?thesis by simp
qed

lemma mset_take_subset: "mset (take n xs) \<subseteq># mset xs"
proof -
  have "mset xs = mset (take n xs) + mset (drop n xs)"
    by (metis append_take_drop_id mset_append)
  then show ?thesis by simp
qed

lemma makeDraft_draft:
  assumes "sortRandom env p w = (shuffled, w1)"
  shows "d_status (fst (makeDraft env mood seeds count' p w)) = ''draft'' \<and>
         d_tracks (fst (makeDraft env mood seeds count' p w)) = map finalTrack (sliceFromStart count' shuffled) \<and>
         d_mood (fst (makeDraft env mood seeds count' p w)) = mood \<and>
         d_genres (fst (makeDraft env mood seeds count' p w)) = seeds \<and>
         d_count (fst (makeDraft env mood seeds count' p w)) = count'"
  using assms by (simp add: makeDraft_def split: prod.splits)

lemma generateFailed_status: "rp_status generateFailed = 500"
  by (simp add: generateFailed_def respond_def)

lemma pair_eqD: "x = (a, b) \<Longrightarrow> x = (c, d) \<Longrightarrow> a = c \<and> b = d"
  by simp

lemma assembleDraft_anonymous:
  assumes feat: "fetchFeaturesMap env (requestOpts userId None appToken) (dedupe collected) st = (featuresMap, st1)"
    and ne: "dedupe collected \<noteq> []"
    and md: "makeDraft env mood seeds count' (pool (target (toLowerCase env) mood) featuresMap (dedupe collected)) (world st1) = (d, w)"
  shows "assembleDraft env userId None appToken mood seeds count' collected st =
           (respond 200 (DraftBody ''Playlist generated successfully.'' d), st1\<lparr>world := w\<rparr>)"
  unfolding assembleDraft_def Let_def
  by (simp only: ne if_False feat md prod.case option.case)

lemma assembleDraft_user:
  assumes feat: "fetchFeaturesMap env (requestOpts userId (Some u) appToken) (dedupe collected) st = (featuresMap, st1)"
    and ne: "dedupe collected \<noteq> []"
    and md: "makeDraft env mood seeds count' (pool (target (toLowerCase env) mood) featuresMap (dedupe collected)) (world st1) = (d, w)"
    and sv: "saveUser env (toKey userId) (\<lambda>x. x\<lparr>u_spotify_playlists := u_spotify_playlists u @ [d]\<rparr>)
                 (st1\<lparr>world := w\<rparr>) = (r2, st2)"
  shows "assembleDraft env userId (Some u) appToken mood seeds count' collected st =
           (case r2 of Inl err \<Rightarrow> generateFailed
                     | Inr r \<Rightarrow> respond 200 (DraftBody ''Playlist generated successfully.'' d), st2)"
  unfolding assembleDraft_def Let_def
  by (cases r2) (simp_all only: ne if_False feat md sv prod.case option.case sum.case)

lemma assembleDraft_run:
  assumes run: "assembleDraft env userId user appToken mood seeds count' collected st = (resp, st')"
    and feat: "fetchFeaturesMap env (requestOpts userId user appToken) (dedupe collected) st = (featuresMap, st1)"
    and ne: "dedupe collected \<noteq> []"
  shows "playlists st' = playlists st \<and>
    (case user of
       None \<Rightarrow>
         resp = respond 200 (DraftBody ''Playlist generated successfully.''
                  (fst (makeDraft env mood seeds count' (pool (target (toLowerCase env) mood) featuresMap (dedupe collected)) (world st1)))) \<and>
         users st' = users st
     | Some u \<Rightarrow>
         (resp = respond 200 (DraftBody ''Playlist generated successfully.''
                  (fst (makeDraft env mood seeds count' (pool (target (toLowerCase env) mood) featuresMap (dedupe collected)) (world st1)))) \<and>
          storedDrafts st' = (storedDrafts st)(toKey userId \<mapsto> u_spotify_playlists u @
              [fst (makeDraft env mood seeds count' (pool (target (toLowerCase env) mood) featuresMap (dedupe collected)) (world st1))])) \<or>
         (resp = generateFailed \<and> storedDrafts st' = storedDrafts st \<and>
          \<not> (dbWorks env \<and> users st (toKey userId) \<noteq> None)))"
proof -
  let ?p = "pool (target (toLowerCase env) mood) featuresMap (dedupe collected)"
  obtain d w where md: "makeDraft env mood seeds count' ?p (world st1) = (d, w)"
    by (cases "makeDraft env mood seeds count' ?p (world st1)")
  then have d: "fst (makeDraft env mood seeds count' ?p (world st1)) = d" by simp
  note fr = fetchFeaturesMap_frame [OF feat]
  show ?thesis
  proof (cases user)
    case None
    from pair_eqD [OF run [unfolded None] assembleDraft_anonymous [OF feat [unfolded None] ne md]]
    have "resp = respond 200 (DraftBody ''Playlist generated successfully.'' d)"
      and "st' = st1\<lparr>world := w\<rparr>"
      by blast+
    moreover have "users st1 = users st" using fr None by (simp add: requestOpts_def userRefreshToken_def)
    ultimately show ?thesis using None fr d by simp
  next
    case (Some u)
    let ?change = "\<lambda>x. x\<lparr>u_spotify_playlists := u_spotify_playlists u @ [d]\<rparr>"
    obtain r2 st2 where c2: "saveUser env (toKey userId) ?change (st1\<lparr>world := w\<rparr>) = (r2, st2)"
      by (cases "saveUser env (toKey userId) ?change (st1\<lparr>world := w\<rparr>)")
    from saveUser_cases [OF c2]
    have p2: "playlists st2 = playlists st1"
      and k2: "(\<exists>e. r2 = Inl e) \<and> users st2 = users st1 \<or>
          r2 = Inr () \<and> (\<exists>x. users st1 (toKey userId) = Some x \<and> users st2 = (users st1)(toKey userId \<mapsto> ?change x))"
      by simp_all
    have sd1: "storedDrafts st1 = storedDrafts st" using fr by simp
    note both = pair_eqD [OF run [unfolded Some] assembleDraft_user [OF feat [unfolded Some] ne md c2]]
    show ?thesis
    proof (cases r2)
      case (Inl err)
      with both have "resp = generateFailed" "st' = st2"
        by simp_all
      moreover from Inl k2 have "storedDrafts st2 = storedDrafts st"
        using storedDrafts_users [of st2 st1] sd1 by auto
      moreover have "\<not> (dbWorks env \<and> users st (toKey userId) \<noteq> None)"
      proof
        assume a: "dbWorks env \<and> users st (toKey userId) \<noteq> None"
        then have "storedDrafts st1 (toKey userId) \<noteq> None" using sd1 by (simp add: storedDrafts_def)
        then obtain x where "users (st1\<lparr>world := w\<rparr>) (toKey userId) = Some x"
          by (auto simp: storedDrafts_def)
        from dbWorks_saveUser [OF _ c2 this] a Inl show False by simp
      qed
      ultimately show ?thesis using Some fr p2 by simp
    next
      case saved: (Inr r)
      with both have "resp = respond 200 (DraftBody ''Playlist generated successfully.'' d)"
        and s: "st' = st2"
        by simp_all
      moreover from saved k2 obtain x where "users st2 = (users st1)(toKey userId \<mapsto> ?change x)" by auto
      then have "storedDrafts st2 = (storedDrafts st1)(toKey userId \<mapsto> u_spotify_playlists u @ [d])"
        by (simp add: storedDrafts_def fun_eq_iff)
      ultimately show ?thesis using Some fr p2 d sd1 by simp
    qed
  qed
qed

section \<open>Collecting candidates changes no draft\<close>

lemma sameDrafts_refl: "sameDrafts st st"
  by (simp add: sameDrafts_def)

lemma sameDrafts_trans: "sameDrafts st st1 \<Longrightarrow> sameDrafts st1 st2 \<Longrightarrow> sameDrafts st st2"
  by (simp add: sameDrafts_def)

lemma sameDrafts_users: "users st' = users st \<Longrightarrow> playlists st' = playlists st \<Longrightarrow> sameDrafts st st'"
  using storedDrafts_users [of st' st] by (simp add: sameDrafts_def)

lemma spotifyRequest_sameDrafts:
  "spotifyRequest env m url o' st = (r, st1) \<Longrightarrow> sameDrafts st st1"
  using spotifyRequest_effects [of env m url o' st r st1] by (simp add: sameDrafts_def)

lemma httpCall_users:
  "httpCall env tag rq st = (r, st') \<Longrightarrow> users st' = users st \<and> playlists st' = playlists st"
  by (auto simp: httpCall_def split: prod.splits)

lemma getAppAccessToken_frame:
  assumes "getAppAccessToken env st = (r, st1)"
  shows "users st1 = users st \<and> playlists st1 = playlists st"
proof (cases "\<not> truthy (SPOTIFY_CLIENT_ID env) \<or> \<not> truthy (SPOTIFY_CLIENT_SECRET env)")
  case True
  with assms show ?thesis by (auto simp: getAppAccessToken_def)
next
  case False
  let ?rq = "\<lparr>rq_method = POST, rq_url = tokenUrl,
                    rq_data = FormData [(''grant_type'', ''client_credentials'')],
                    rq_authorization =
                      Some (Basic (toKey (SPOTIFY_CLIENT_ID env)) (toKey (SPOTIFY_CLIENT_SECRET env))),
                    rq_contentType = Some ''application/x-www-form-urlencoded'',
                    rq_params = []\<rparr>"
  obtain r0 st0 where c: "httpCall env AppTokenExchange ?rq st = (r0, st0)"
    by (cases "httpCall env AppTokenExchange ?rq st")
  with assms False have "st1 = st0" by (cases r0) (auto simp: getAppAccessToken_def)
  with httpCall_users [OF c] show ?thesis by simp
qed

lemma connect_frame:
  assumes "connect env userId st = (r, st1)"
  shows "users st1 = users st \<and> playlists st1 = playlists st \<and>
         (\<forall>user appToken. r = Inr (user, appToken) \<longrightarrow> (\<not> truthy userId \<longrightarrow> user = None))"
proof -
  obtain r0 st0 where c0: "(if truthy userId then findById env userId st else (Inr None, st)) = (r0, st0)"
    by (cases "if truthy userId then findById env userId st else (Inr None, st)")
  have f0: "users st0 = users st \<and> playlists st0 = playlists st \<and> (\<not> truthy userId \<longrightarrow> r0 = Inr None)"
  proof (cases "truthy userId")
    case True
    with c0 findById_cases [of env userId st r0 st0] show ?thesis by simp
  next
    case False
    with c0 show ?thesis by auto
  qed
  show ?thesis
  proof (cases r0)
    case (Inl err)
    with assms c0 have "st1 = st0" "r = Inl err" by (simp_all add: connect_def)
    with f0 show ?thesis by simp
  next
    case (Inr user)
    show ?thesis
    proof (cases "truthy (userToken user)")
      case True
      with assms c0 Inr have "st1 = st0" "r = Inr (user, None)" by (simp_all add: connect_def)
      with f0 Inr show ?thesis by auto
    next
      case False
      obtain r2 st2 where c2: "getAppAccessToken env st0 = (r2, st2)" by (cases "getAppAccessToken env st0")
      with assms c0 Inr False have "st1 = st2 \<and> (\<forall>u a. r = Inr (u, a) \<longrightarrow> u = user)"
        by (cases r2) (simp_all add: connect_def, blast+)
      with f0 Inr getAppAccessToken_frame [OF c2] show ?thesis by auto
    qed
  qed
qed

lemma searchLoop_frame:
  "searchLoop env o' mood gs cands st = (collected, st1) \<Longrightarrow>
     sameDrafts st st1 \<and> (\<not> (truthy (o_refreshToken o') \<and> truthy (o_userId o')) \<longrightarrow> users st1 = users st)"
proof (induction gs arbitrary: cands st)
  case Nil
  then show ?case by (simp add: sameDrafts_refl)
next
  case (Cons g gs)
  let ?o = "o'\<lparr>o_params := [(''q'', genreText g @ '' '' @ mood), (''type'', ''track''),
                              (''limit'', ''50''), (''market'', ''US'')]\<rparr>"
  obtain r st0 where c: "spotifyRequest env GET ''https://api.spotify.com/v1/search'' ?o st = (r, st0)"
    by (cases "spotifyRequest env GET ''https://api.spotify.com/v1/search'' ?o st")
  have s0: "sameDrafts st st0" by (rule spotifyRequest_sameDrafts [OF c])
  have u0: "\<not> (truthy (o_refreshToken o') \<and> truthy (o_userId o')) \<longrightarrow> users st0 = users st"
    using spotifyRequest_no_refresh [OF c] by simp
  from Cons.prems c obtain cands' where "searchLoop env o' mood gs cands' st0 = (collected, st1)"
    by (cases r) simp_all
  from Cons.IH [OF this] s0 u0 show ?case by (auto intro: sameDrafts_trans)
qed

lemma fetchArtistTopTracks_frame:
  "fetchArtistTopTracks env artistId token st = (r, st1) \<Longrightarrow> sameDrafts st st1"
proof -
  assume a: "fetchArtistTopTracks env artistId token st = (r, st1)"
  let ?o = "\<lparr>o_accessToken = token, o_appToken = token, o_data = NoData,
              o_params = [(''market'', ''US'')], o_refreshToken = None, o_userId = None\<rparr>"
  let ?url = "''https://api.spotify.com/v1/artists/'' @ toKey artistId @ ''/top-tracks''"
  obtain r0 st0 where c: "spotifyRequest env GET ?url ?o st = (r0, st0)"
    by (cases "spotifyRequest env GET ?url ?o st")
  with a have "st1 = st0" by (cases r0) (auto simp: fetchArtistTopTracks_def)
  with spotifyRequest_sameDrafts [OF c] show ?thesis by simp
qed

lemma artistLoop_frame:
  "artistLoop env token artists cands st = (collected, st1) \<Longrightarrow> sameDrafts st st1"
proof (induction artists arbitrary: cands st)
  case Nil
  then show ?case by (simp add: sameDrafts_refl)
next
  case (Cons a artists)
  show ?case
  proof (cases a)
    case None
    with Cons.prems show ?thesis by (simp add: sameDrafts_refl)
  next
    case (Some artist)
    obtain r st0 where c: "fetchArtistTopTracks env (rt_id artist) token st = (r, st0)"
      by (cases "fetchArtistTopTracks env (rt_id artist) token st")
    from Cons.prems Some c obtain cands' where "artistLoop env token artists cands' st0 = (collected, st1)"
      by (cases r) simp_all
    from Cons.IH [OF this] fetchArtistTopTracks_frame [OF c] show ?thesis by (rule sameDrafts_trans [rotated])
  qed
qed

lemma personalize_frame:
  assumes "personalize env token refreshToken userId st = (collected, st')"
  shows "sameDrafts st st'"
proof -
  let ?o = "\<lparr>o_accessToken = token, o_appToken = None, o_data = NoData, o_params = [],
                o_refreshToken = refreshToken, o_userId = userId\<rparr>"
  obtain r1 st1 where c1: "spotifyRequest env GET ''https://api.spotify.com/v1/me/top/tracks?limit=5'' ?o st = (r1, st1)"
    by (cases "spotifyRequest env GET ''https://api.spotify.com/v1/me/top/tracks?limit=5'' ?o st")
  obtain r2 st2 where c2: "spotifyRequest env GET ''https://api.spotify.com/v1/me/top/artists?limit=5'' ?o st1 = (r2, st2)"
    by (cases "spotifyRequest env GET ''https://api.spotify.com/v1/me/top/artists?limit=5'' ?o st1")
  have s2: "sameDrafts st st2"
    by (rule sameDrafts_trans [OF spotifyRequest_sameDrafts [OF c1] spotifyRequest_sameDrafts [OF c2]])
  have "sameDrafts st2 st'"
  proof (cases "\<exists>t a. r1 = Inr t \<and> r2 = Inr a")
    case True
    then obtain t a where "r1 = Inr t" "r2 = Inr a" by blast
    with assms c1 c2 obtain xs ys where "artistLoop env token xs ys st2 = (collected, st')"
      by (simp add: personalize_def Let_def)
    then show ?thesis by (rule artistLoop_frame)
  next
    case False
    with assms c1 c2 have "st' = st2"
      by (cases r1; cases r2) (simp_all add: personalize_def Let_def)
    then show ?thesis by (simp add: sameDrafts_refl)
  qed
  with s2 show ?thesis by (rule sameDrafts_trans)
qed

lemma collectCandidates_frame:
  assumes "collectCandidates env userId user appToken mood seeds st = (collected, st1)"
  shows "sameDrafts st st1 \<and> (user = None \<longrightarrow> users st1 = users st)"
proof -
  obtain c0 st0 where p: "(if truthy (userToken user)
            then personalize env (userToken user) (userRefreshToken user) userId st
            else ([], st)) = (c0, st0)"
    by (cases "if truthy (userToken user)
            then personalize env (userToken user) (userRefreshToken user) userId st
            else ([], st)")
  have s0: "sameDrafts st st0 \<and> (user = None \<longrightarrow> users st0 = users st)"
  proof (cases "truthy (userToken user)")
    case True
    with p personalize_frame [of env "userToken user" "userRefreshToken user" userId st c0 st0]
    show ?thesis by (auto simp: userToken_def)
  next
    case False
    with p show ?thesis by (auto simp: sameDrafts_refl)
  qed
  from assms p have "searchLoop env (requestOpts userId user appToken) mood seeds c0 st0 = (collected, st1)"
    by (simp add: collectCandidates_def)
  from searchLoop_frame [OF this] s0 show ?thesis
    by (auto intro: sameDrafts_trans simp: requestOpts_def userRefreshToken_def)
qed

lemma assembleDraft_sample:
  assumes run: "assembleDraft env userId user appToken mood seeds count' collected st = (resp, st')"
    and feat: "fetchFeaturesMap env (requestOpts userId user appToken) (dedupe collected) st = (featuresMap, st1)"
    and srt: "sortRandom env (pool (target (toLowerCase env) mood) featuresMap (dedupe collected)) (world st1) = (shuffled, w1)"
    and perm: "mset shuffled = mset (pool (target (toLowerCase env) mood) featuresMap (dedupe collected))"
    and ne: "dedupe collected \<noteq> []"
    and c0: "0 \<le> count'"
    and cn: "nat count' \<le> length (pool (target (toLowerCase env) mood) featuresMap (dedupe collected))"
  shows "\<exists>d. d_status d = ''draft'' \<and>
             d_tracks d = map finalTrack (take (nat count') shuffled) \<and>
             length (d_tracks d) = nat count' \<and>
             mset (take (nat count') shuffled) \<subseteq># mset (pool (target (toLowerCase env) mood) featuresMap (dedupe collected)) \<and>
             playlists st' = playlists st \<and>
             (case user of
                None \<Rightarrow>
                  resp = respond 200 (DraftBody ''Playlist generated successfully.'' d) \<and> users st' = users st
              | Some u \<Rightarrow>
                  (resp = respond 200 (DraftBody ''Playlist generated successfully.'' d) \<and>
                   storedDrafts st' = (storedDrafts st)(toKey userId \<mapsto> u_spotify_playlists u @ [d])) \<or>
                  (resp = generateFailed \<and> storedDrafts st' = storedDrafts st \<and>
                   \<not> (dbWorks env \<and> users st (toKey userId) \<noteq> None)))"
proof -
  let ?p = "pool (target (toLowerCase env) mood) featuresMap (dedupe collected)"
  let ?d = "fst (makeDraft env mood seeds count' ?p (world st1))"
  from makeDraft_draft [OF srt, of mood seeds count'] c0
  have st: "d_status ?d = ''draft''" and tr: "d_tracks ?d = map finalTrack (take (nat count') shuffled)"
    by (simp_all add: sliceFromStart_def)
  have "length shuffled = length ?p" using perm by (metis size_mset)
  with cn tr have len: "length (d_tracks ?d) = nat count'" by simp
  have sub: "mset (take (nat count') shuffled) \<subseteq># mset ?p"
    using mset_take_subset [of "nat count'" shuffled] perm by simp
  from assembleDraft_run [OF run feat ne] st tr len sub show ?thesis
    by (intro exI [of _ ?d]) simp
qed

lemma assembleDraft_fallback:
  assumes run: "assembleDraft env userId user appToken mood seeds count' collected st = (resp, st')"
    and feat: "fetchFeaturesMap env (requestOpts userId user appToken) (dedupe collected) st = (featuresMap, st1)"
    and ne: "dedupe collected \<noteq> []"
    and empty: "filtered (target (toLowerCase env) mood) featuresMap (dedupe collected) = []"
  shows "pool (target (toLowerCase env) mood) featuresMap (dedupe collected) = dedupe collected \<and>
         (resp = respond 200 (DraftBody ''Playlist generated successfully.''
                   (fst (makeDraft env mood seeds count' (dedupe collected) (world st1)))) \<or>
          (user \<noteq> None \<and> resp = generateFailed \<and> \<not> (dbWorks env \<and> users st (toKey userId) \<noteq> None)))"
proof -
  have p: "pool (target (toLowerCase env) mood) featuresMap (dedupe collected) = dedupe collected"
    using empty by (simp add: pool_def)
  from assembleDraft_run [OF run feat ne, unfolded p] p show ?thesis
    by (cases user) auto
qed

section \<open>generatePlaylist: the fallback and the sample\<close>

lemmas genEval = generatePlaylist_def requestedCount_def connect_def getAppAccessToken_def collectCandidates_def
  assembleDraft_def fetchFeaturesMap_def makeDraft_def requestOpts_def userToken_def userRefreshToken_def
  spotifyRequest_def httpCall_def apiRequest_def requestHeaders_def requestToken_def tokenUrl_def
  emptyResponse_def respond_def Let_def showNat.simps sliceFromStart_def
  dedupe_def byIdStep_def buildFeaturesMap_def featuresStep_def featuresId_def poolIds_def
  pool_def filtered_def passesFilter_def inRange_def target_def moodMap_def
  asciiLowerCase_def lowerChar_def upperLetters_def lowerLetters_def

lemmas catalogue = catalogueEnv_def catalogueProvider_def noUsers_def chillPop_def hypePop_def
  trackA_def trackA2_def trackB_def calmFeatures_def hotFeatures_def

lemma catalogue_lowercase: "toLowerCase catalogueEnv = asciiLowerCase"
  by (simp add: catalogueEnv_def)

lemma generatePlaylist_unfold:
  assumes mood: "g_mood body' = Some mood" "mood \<noteq> []"
    and genres: "g_genres body' = Some genres" "genres \<noteq> []"
    and conn: "connect env userId st0 = (Inr (user, appToken), st1)"
    and coll: "collectCandidates env userId user appToken mood (seedGenres (toLowerCase env) genres) st1 = (collected, st)"
  shows "generatePlaylist env userId body' st0 =
           assembleDraft env userId user appToken mood (seedGenres (toLowerCase env) genres) (requestedCount body') collected st"
proof -
  have t: "truthy (g_mood body')" "toKey (g_mood body') = mood" using mood by simp_all
  show ?thesis
    unfolding generatePlaylist_def Let_def
    by (simp only: t genres conn coll option.case not_True_eq_False simp_thms if_False prod.case sum.case)
qed

lemma users_storedDrafts: "storedDrafts st = storedDrafts st0 \<Longrightarrow> (users st k = None) = (users st0 k = None)"
proof -
  assume "storedDrafts st = storedDrafts st0"
  then have "storedDrafts st k = storedDrafts st0 k" by simp
  then have "map_option u_spotify_playlists (users st k) = map_option u_spotify_playlists (users st0 k)"
    by (simp add: storedDrafts_def)
  then show ?thesis by (cases "users st k"; cases "users st0 k") simp_all
qed

lemma hype_scenario:
  obtains st1 st2 st3 where
    "connect catalogueEnv None noUsers = (Inr (None, Some ''app-token''), st1)"
    "collectCandidates catalogueEnv None None (Some ''app-token'') ''hype'' (seedGenres asciiLowerCase [''pop'']) st1 =
       ([Some trackA, Some trackB, Some trackA2], st2)"
    "fetchFeaturesMap catalogueEnv (requestOpts None None (Some ''app-token''))
       (dedupe [Some trackA, Some trackB, Some trackA2]) st2 =
       (buildFeaturesMap [Some calmFeatures, Some hotFeatures], st3)"
proof -
  obtain st1 where a: "connect catalogueEnv None noUsers = (Inr (None, Some ''app-token''), st1)"
    by (simp add: genEval catalogue)
  obtain st2 where b: "collectCandidates catalogueEnv None None (Some ''app-token'') ''hype'' (seedGenres asciiLowerCase [''pop'']) st1 =
       ([Some trackA, Some trackB, Some trackA2], st2)"
    by (simp add: genEval catalogue evalGenre)
  obtain st3 where c: "fetchFeaturesMap catalogueEnv (requestOpts None None (Some ''app-token''))
       (dedupe [Some trackA, Some trackB, Some trackA2]) st2 =
       (buildFeaturesMap [Some calmFeatures, Some hotFeatures], st3)"
    by (simp add: genEval catalogue)
  from a b c that show thesis by blast
qed

lemma hype_candidates: "dedupe [Some trackA, Some trackB, Some trackA2] = [trackA, trackB]"
  by (simp add: dedupe_def byIdStep_def catalogue)

lemma hype_filtered:
  "filtered (target asciiLowerCase ''hype'') (buildFeaturesMap [Some calmFeatures, Some hotFeatures]) [trackA, trackB] = []"
  by (simp add: genEval catalogue)

lemma hype_pool:
  "pool (target asciiLowerCase ''hype'') (buildFeaturesMap [Some calmFeatures, Some hotFeatures]) [trackA, trackB] = [trackA, trackB]"
  by (simp add: pool_def hype_filtered)

text \<open>
  Claim C5. Take a run of \<open>generatePlaylist\<close> on a valid request that connects and
  collects candidates of which the deduplicated list is not empty. When the attribute
  filter leaves none of them, the pool the draft is made from is the whole unfiltered
  list, and the request is answered with status 200 and the draft made from it. The one
  other outcome is the 500 answer of a signed-in user whose document could not be saved,
  which takes a failing database or a missing document: emptying the pool by filtering
  never fails the generation.
\<close>

theorem generatePlaylist_falls_back:
  assumes run: "generatePlaylist env userId body' st0 = (resp, st')"
    and mood: "g_mood body' = Some mood" "mood \<noteq> []"
    and genres: "g_genres body' = Some genres" "genres \<noteq> []"
    and conn: "connect env userId st0 = (Inr (user, appToken), st1)"
    and coll: "collectCandidates env userId user appToken mood (seedGenres (toLowerCase env) genres) st1 = (collected, st2)"
    and feat: "fetchFeaturesMap env (requestOpts userId user appToken) (dedupe collected) st2 = (featuresMap, st3)"
    and ne: "dedupe collected \<noteq> []"
    and empty: "filtered (target (toLowerCase env) mood) featuresMap (dedupe collected) = []"
  shows "pool (target (toLowerCase env) mood) featuresMap (dedupe collected) = dedupe collected \<and>
         (resp = respond 200 (DraftBody ''Playlist generated successfully.''
                   (fst (makeDraft env mood (seedGenres (toLowerCase env) genres) (requestedCount body') (dedupe collected) (world st3)))) \<or>
          (user \<noteq> None \<and> resp = generateFailed \<and> \<not> (dbWorks env \<and> users st0 (toKey userId) \<noteq> None)))"
proof -
  from run generatePlaylist_unfold [OF mood genres conn coll]
  have asm: "assembleDraft env userId user appToken mood (seedGenres (toLowerCase env) genres) (requestedCount body') collected st2 = (resp, st')"
    by simp
  from connect_frame [OF conn] have u1: "users st1 = users st0" by simp
  from collectCandidates_frame [OF coll] have d2: "storedDrafts st2 = storedDrafts st1"
    by (simp add: sameDrafts_def)
  have d20: "storedDrafts st2 = storedDrafts st0" using d2 storedDrafts_users [OF u1] by simp
  have k: "(users st2 (toKey userId) = None) = (users st0 (toKey userId) = None)"
    by (rule users_storedDrafts [OF d20])
  from assembleDraft_fallback [OF asm feat ne empty] k show ?thesis by auto
qed


theorem generatePlaylist_falls_back_witness:
  "draftTracks (fst (generatePlaylist catalogueEnv None hypePop noUsers)) = [finalTrack trackB, finalTrack trackA]"
proof -
  obtain resp st' where run: "generatePlaylist catalogueEnv None hypePop noUsers = (resp, st')"
    by (cases "generatePlaylist catalogueEnv None hypePop noUsers")
  have mood: "g_mood hypePop = Some ''hype''" "''hype'' \<noteq> []"
    and genres: "g_genres hypePop = Some [''pop'']" "[''pop''] \<noteq> []"
    and cnt: "requestedCount hypePop = 2"
    by (simp_all add: hypePop_def requestedCount_def)
  obtain st1 st2 st3 where conn: "connect catalogueEnv None noUsers = (Inr (None, Some ''app-token''), st1)"
    and coll: "collectCandidates catalogueEnv None None (Some ''app-token'') ''hype'' (seedGenres asciiLowerCase [''pop'']) st1 =
       ([Some trackA, Some trackB, Some trackA2], st2)"
    and feat: "fetchFeaturesMap catalogueEnv (requestOpts None None (Some ''app-token''))
       (dedupe [Some trackA, Some trackB, Some trackA2]) st2 =
       (buildFeaturesMap [Some calmFeatures, Some hotFeatures], st3)"
    by (rule hype_scenario)
  have ne: "dedupe [Some trackA, Some trackB, Some trackA2] \<noteq> []" by (simp add: hype_candidates)
  have empty: "filtered (target asciiLowerCase ''hype'') (buildFeaturesMap [Some calmFeatures, Some hotFeatures])
      (dedupe [Some trackA, Some trackB, Some trackA2]) = []"
    by (simp only: hype_candidates hype_filtered)
  from generatePlaylist_falls_back [OF run mood genres conn coll [folded catalogue_lowercase] feat ne empty [folded catalogue_lowercase]]
  have "resp = respond 200 (DraftBody ''Playlist generated successfully.''
          (fst (makeDraft catalogueEnv ''hype'' (seedGenres asciiLowerCase [''pop'']) 2 [trackA, trackB] (world st3))))"
    by (simp add: hype_candidates cnt catalogue_lowercase)
  then have "draftTracks resp = [finalTrack trackB, finalTrack trackA]"
    by (simp add: draftTracks_def respond_def makeDraft_def catalogueEnv_def sliceFromStart_def)
  with run show ?thesis by simp
qed

text \<open>
  Claim C9 as stated fails: an unauthenticated request for two tracks, whose candidate
  pool holds two tracks of which the mood's constraints keep one, is answered with a
  draft of one track.
\<close>

theorem generatePlaylist_short_draft_counterexample:
  "fst (collectCandidates catalogueEnv None None (Some ''app-token'') ''chill'' (seedGenres asciiLowerCase [''pop''])
         (snd (connect catalogueEnv None noUsers))) = [Some trackA, Some trackB, Some trackA2] \<and>
   length (dedupe [Some trackA, Some trackB, Some trackA2]) = 2 \<and>
   requestedCount chillPop = 2 \<and>
   rp_status (fst (generatePlaylist catalogueEnv None chillPop noUsers)) = 200 \<and>
   draftTracks (fst (generatePlaylist catalogueEnv None chillPop noUsers)) = [finalTrack trackA]"
  by (simp add: genEval catalogue evalGenre draftTracks_def)

text \<open>
  Claim C9, amended. Take a run of \<open>generatePlaylist\<close> on a valid request that connects
  and collects candidates of which the deduplicated list is not empty, and whose sampling
  pool (the candidates that pass the attribute filter, or all of them when none passes)
  has at least \<open>count\<close> entries, \<open>count\<close> (20 by default) not negative, the random
  sort rearranging the pool. The draft then has status \<open>draft\<close> and exactly
  \<open>count\<close> tracks: the first \<open>count\<close> entries of the rearranged pool, a sample of
  the pool without repetition, each in the public shape. A caller who is not
  authenticated has no user; without a user the draft is returned with status 200 and no
  stored user and no published playlist changes. For a user it is returned and appended
  to the stored draft list of that user, or the save fails and the answer is 500 with
  the drafts unchanged.
\<close>

theorem generatePlaylist_samples_pool:
  assumes run: "generatePlaylist env userId body' st0 = (resp, st')"
    and mood: "g_mood body' = Some mood" "mood \<noteq> []"
    and genres: "g_genres body' = Some genres" "genres \<noteq> []"
    and conn: "connect env userId st0 = (Inr (user, appToken), st1)"
    and coll: "collectCandidates env userId user appToken mood (seedGenres (toLowerCase env) genres) st1 = (collected, st2)"
    and feat: "fetchFeaturesMap env (requestOpts userId user appToken) (dedupe collected) st2 = (featuresMap, st3)"
    and srt: "sortRandom env (pool (target (toLowerCase env) mood) featuresMap (dedupe collected)) (world st3) = (shuffled, w)"
    and perm: "mset shuffled = mset (pool (target (toLowerCase env) mood) featuresMap (dedupe collected))"
    and ne: "dedupe collected \<noteq> []"
    and c0: "0 \<le> requestedCount body'"
    and cn: "nat (requestedCount body') \<le> length (pool (target (toLowerCase env) mood) featuresMap (dedupe collected))"
  shows "\<exists>d. d_status d = ''draft'' \<and>
             d_tracks d = map finalTrack (take (nat (requestedCount body')) shuffled) \<and>
             length (d_tracks d) = nat (requestedCount body') \<and>
             mset (take (nat (requestedCount body')) shuffled) \<subseteq>#
               mset (pool (target (toLowerCase env) mood) featuresMap (dedupe collected)) \<and>
             playlists st' = playlists st0 \<and>
             (\<not> truthy userId \<longrightarrow> user = None) \<and>
             (case user of
                None \<Rightarrow>
                  resp = respond 200 (DraftBody ''Playlist generated successfully.'' d) \<and> users st' = users st0
              | Some u \<Rightarrow>
                  (resp = respond 200 (DraftBody ''Playlist generated successfully.'' d) \<and>
                   storedDrafts st' = (storedDrafts st0)(toKey userId \<mapsto> u_spotify_playlists u @ [d])) \<or>
                  (resp = generateFailed \<and> storedDrafts st' = storedDrafts st0 \<and>
                   \<not> (dbWorks env \<and> users st0 (toKey userId) \<noteq> None)))"
proof -
  from run generatePlaylist_unfold [OF mood genres conn coll]
  have asm: "assembleDraft env userId user appToken mood (seedGenres (toLowerCase env) genres) (requestedCount body') collected st2 = (resp, st')"
    by simp
  from connect_frame [OF conn]
  have u1: "users st1 = users st0" and p1: "playlists st1 = playlists st0"
    and anon: "\<not> truthy userId \<longrightarrow> user = None"
    by simp_all
  from collectCandidates_frame [OF coll]
  have p2: "playlists st2 = playlists st1" and d2: "storedDrafts st2 = storedDrafts st1"
    and u2: "user = None \<longrightarrow> users st2 = users st1"
    by (simp_all add: sameDrafts_def)
  have d20: "storedDrafts st2 = storedDrafts st0" using d2 storedDrafts_users [OF u1] by simp
  have p20: "playlists st2 = playlists st0" using p1 p2 by simp
  have k: "(users st2 (toKey userId) = None) = (users st0 (toKey userId) = None)"
    by (rule users_storedDrafts [OF d20])
  from assembleDraft_sample [OF asm feat srt perm ne c0 cn]
  obtain d where d: "d_status d = ''draft''"
      "d_tracks d = map finalTrack (take (nat (requestedCount body')) shuffled)"
      "length (d_tracks d) = nat (requestedCount body')"
      "mset (take (nat (requestedCount body')) shuffled) \<subseteq># mset (pool (target (toLowerCase env) mood) featuresMap (dedupe collected))"
      "playlists st' = playlists st2"
    and out: "case user of
                None \<Rightarrow>
                  resp = respond 200 (DraftBody ''Playlist generated successfully.'' d) \<and> users st' = users st2
              | Some u \<Rightarrow>
                  (resp = respond 200 (DraftBody ''Playlist generated successfully.'' d) \<and>
                   storedDrafts st' = (storedDrafts st2)(toKey userId \<mapsto> u_spotify_playlists u @ [d])) \<or>
                  (resp = generateFailed \<and> storedDrafts st' = storedDrafts st2 \<and>
                   \<not> (dbWorks env \<and> users st2 (toKey userId) \<noteq> None))"
    by blast
  have "case user of
                None \<Rightarrow>
                  resp = respond 200 (DraftBody ''Playlist generated successfully.'' d) \<and> users st' = users st0
              | Some u \<Rightarrow>
                  (resp = respond 200 (DraftBody ''Playlist generated successfully.'' d) \<and>
                   storedDrafts st' = (storedDrafts st0)(toKey userId \<mapsto> u_spotify_playlists u @ [d])) \<or>
                  (resp = generateFailed \<and> storedDrafts st' = storedDrafts st0 \<and>
                   \<not> (dbWorks env \<and> users st0 (toKey userId) \<noteq> None))"
  proof (cases user)
    case None
    with out u2 u1 show ?thesis by simp
  next
    case (Some u)
    with out d20 k show ?thesis by auto
  qed
  with d p20 anon show ?thesis by (intro exI [of _ d]) simp
qed

theorem generatePlaylist_samples_pool_witness:
  "rp_status (fst (generatePlaylist catalogueEnv None hypePop noUsers)) = 200 \<and>
   length (draftTracks (fst (generatePlaylist catalogueEnv None hypePop noUsers))) = 2 \<and>
   users (snd (generatePlaylist catalogueEnv None hypePop noUsers)) = Map.empty"
proof -
  obtain resp st' where run: "generatePlaylist catalogueEnv None hypePop noUsers = (resp, st')"
    by (cases "generatePlaylist catalogueEnv None hypePop noUsers")
  have mood: "g_mood hypePop = Some ''hype''" "''hype'' \<noteq> []"
    and genres: "g_genres hypePop = Some [''pop'']" "[''pop''] \<noteq> []"
    and cnt: "requestedCount hypePop = 2"
    by (simp_all add: hypePop_def requestedCount_def)
  obtain st1 st2 st3 where conn: "connect catalogueEnv None noUsers = (Inr (None, Some ''app-token''), st1)"
    and coll: "collectCandidates catalogueEnv None None (Some ''app-token'') ''hype'' (seedGenres asciiLowerCase [''pop'']) st1 =
       ([Some trackA, Some trackB, Some trackA2], st2)"
    and feat: "fetchFeaturesMap catalogueEnv (requestOpts None None (Some ''app-token''))
       (dedupe [Some trackA, Some trackB, Some trackA2]) st2 =
       (buildFeaturesMap [Some calmFeatures, Some hotFeatures], st3)"
    by (rule hype_scenario)
  let ?p = "pool (target asciiLowerCase ''hype'') (buildFeaturesMap [Some calmFeatures, Some hotFeatures])
              (dedupe [Some trackA, Some trackB, Some trackA2])"
  have p: "?p = [trackA, trackB]" by (simp only: hype_candidates hype_pool)
  have srt: "sortRandom catalogueEnv ?p (world st3) = ([trackB, trackA], world st3)"
    unfolding p by (simp add: catalogueEnv_def)
  have perm: "mset [trackB, trackA] = mset ?p" unfolding p by simp
  have ne: "dedupe [Some trackA, Some trackB, Some trackA2] \<noteq> []" by (simp add: hype_candidates)
  have c0: "0 \<le> requestedCount hypePop" by (simp add: cnt)
  have cn: "nat (requestedCount hypePop) \<le> length ?p" unfolding p by (simp add: cnt)
  from generatePlaylist_samples_pool [OF run mood genres conn coll [folded catalogue_lowercase] feat srt [folded catalogue_lowercase]
      perm [folded catalogue_lowercase] ne c0 cn [folded catalogue_lowercase]]
  obtain d where "length (d_tracks d) = 2" "resp = respond 200 (DraftBody ''Playlist generated successfully.'' d)"
    "users st' = users noUsers"
    by (auto simp: cnt)
  then have "rp_status resp = 200 \<and> length (draftTracks resp) = 2 \<and> users st' = Map.empty"
    by (simp add: respond_def draftTracks_def noUsers_def)
  with run show ?thesis by simp
qed


end
